theory Spec2Isabelle
  imports Main "HOL-Library.Sublist" "HOL-Library.Multiset"
begin

section \<open>Values of the untrusted model output\<close>

text \<open>
  The completion service answers with text that \<open>JSON.parse\<close> turns into an arbitrary
  JavaScript value; the TypeScript cast \<open>as GroqFollowupRaw\<close> checks nothing at run time.
  \<open>jsval\<close> is the type of such values, together with \<open>undefined\<close>, the result of reading
  a property that is absent. An object is its list of (key, value) entries; a property
  is read with \<open>map_of\<close>. A number only matters through its truthiness (non-zero), so its
  payload is an integer.
\<close>

datatype jsval =
    JUndefined
  | JNull
  | JBool bool
  | JNum int
  | JStr string
  | JArr "jsval list"
  | JObj "(string \<times> jsval) list"

datatype js_error = Error string | TypeError string

text \<open>\<open>!!v\<close>: the truthiness of a value.\<close>

fun truthy :: "jsval \<Rightarrow> bool" where
  "truthy JUndefined = False"
| "truthy JNull = False"
| "truthy (JBool b) = b"
| "truthy (JNum n) = (n \<noteq> 0)"
| "truthy (JStr s) = (s \<noteq> [])"
| "truthy (JArr xs) = True"
| "truthy (JObj kvs) = True"

text \<open>
  \<open>v.name\<close> for the property names the handler reads (\<open>notFound\<close>, \<open>answer\<close>,
  \<open>citations\<close>, \<open>used_chunk_ids\<close>, \<open>chunk_id\<close>; none of them is a built-in member of a
  string, array, number or boolean): reading a property of \<open>null\<close> or \<open>undefined\<close>
  throws a TypeError, an object yields the entry or \<open>undefined\<close>, every other value
  yields \<open>undefined\<close>.
\<close>

fun get_prop :: "jsval \<Rightarrow> string \<Rightarrow> js_error + jsval" where
  "get_prop JUndefined name = Inl (TypeError ''Cannot read properties of undefined'')"
| "get_prop JNull name = Inl (TypeError ''Cannot read properties of null'')"
| "get_prop (JObj kvs) name = Inr (case map_of kvs name of Some v \<Rightarrow> v | None \<Rightarrow> JUndefined)"
| "get_prop v name = Inr JUndefined"

text \<open>\<open>a ?? b\<close>\<close>

fun nullish_or :: "jsval \<Rightarrow> jsval \<Rightarrow> jsval" where
  "nullish_or JUndefined d = d"
| "nullish_or JNull d = d"
| "nullish_or v d = v"

text \<open>\<open>Array.isArray(v) ? v : []\<close>\<close>

fun array_or_empty :: "jsval \<Rightarrow> jsval list" where
  "array_or_empty (JArr xs) = xs"
| "array_or_empty v = []"

text \<open>
  \<open>Array.from(new Set(xs))\<close>: a Set keeps its elements in insertion order, so the
  result lists the first occurrence of every element. It is applied to lists of strings
  only (the prior chunk ids, and the used ids after the filter on the allowed ids), where
  the Set's equality is the equality of strings.
\<close>

definition set_add :: "'a list \<Rightarrow> 'a \<Rightarrow> 'a list" where
  "set_add seen x = (if x \<in> set seen then seen else seen @ [x])"

definition array_from_set :: "'a list \<Rightarrow> 'a list" where
  "array_from_set xs = foldl set_add [] xs"

text \<open>\<open>allowedChunkIds.has(v)\<close> on a \<open>Set<string>\<close>: only a string can be a member.\<close>

fun set_has :: "string set \<Rightarrow> jsval \<Rightarrow> bool" where
  "set_has ids (JStr s) = (s \<in> ids)"
| "set_has ids v = False"

section \<open>The response sanitizer\<close>

definition NOT_FOUND_ANSWER :: string where
  "NOT_FOUND_ANSWER = ''Not found in your notes for this subject.''"

text \<open>
  \<open>citations.filter((c) => allowedChunkIds.has(c.chunk_id))\<close>. The callback throws on a
  \<open>null\<close> element, and the exception leaves \<open>filter\<close>.
\<close>

fun filter_citations :: "string set \<Rightarrow> jsval list \<Rightarrow> js_error + jsval list" where
  "filter_citations ids [] = Inr []"
| "filter_citations ids (c # cs) =
     (case get_prop c ''chunk_id'' of
        Inl e \<Rightarrow> Inl e
      | Inr v \<Rightarrow>
          (case filter_citations ids cs of
             Inl e \<Rightarrow> Inl e
           | Inr r \<Rightarrow> Inr (if set_has ids v then c # r else r)))"

text \<open>\<open>citations.map((c) => c.chunk_id)\<close>\<close>

fun map_chunk_id :: "jsval list \<Rightarrow> js_error + jsval list" where
  "map_chunk_id [] = Inr []"
| "map_chunk_id (c # cs) =
     (case get_prop c ''chunk_id'' of
        Inl e \<Rightarrow> Inl e
      | Inr v \<Rightarrow> (case map_chunk_id cs of Inl e \<Rightarrow> Inl e | Inr r \<Rightarrow> Inr (v # r)))"

text \<open>
  Lines 223 to 238 of the handler, as a function of the four extracted fields and the set
  of allowed ids.
\<close>

type_synonym fields = "bool \<times> jsval \<times> jsval list \<times> jsval list"

definition sanitize :: "string set \<Rightarrow> fields \<Rightarrow> js_error + fields" where
  "sanitize allowedChunkIds f =
     (case f of (notFound, answer, citations, usedChunkIds) \<Rightarrow>
        (case filter_citations allowedChunkIds citations of
           Inl e \<Rightarrow> Inl e
         | Inr citations1 \<Rightarrow>
             (case (if usedChunkIds = [] then map_chunk_id citations1 else Inr usedChunkIds) of
                Inl e \<Rightarrow> Inl e
              | Inr used1 \<Rightarrow>
                  (let used2 = array_from_set (filter (set_has allowedChunkIds) used1);
                       notFound1 = (if citations1 = [] \<or> used2 = [] then True else notFound)
                   in if notFound1
                      then Inr (True, JStr NOT_FOUND_ANSWER, [], [])
                      else Inr (notFound1, answer, citations1, used2)))))"


section \<open>Strings\<close>

text \<open>
  A string is a list of 8-bit code units: the model covers text whose UTF-16 code units
  are below 256. In that range \<open>\s\<close> (and the set \<open>trim\<close> strips) is tab, line feed,
  vertical tab, form feed, carriage return, space and the no-break space; and
  \<open>toLowerCase\<close> changes a code unit into one of \<open>[a-z0-9\s]\<close> only for \<open>A\<close> to \<open>Z\<close>,
  which is all the handler can observe of it, since every other code unit is replaced
  by a space right after.
\<close>

definition is_space :: "char \<Rightarrow> bool" where
  "is_space c = ((of_char c :: nat) \<in> {9, 10, 11, 12, 13, 32, 160})"

definition trim :: "string \<Rightarrow> string" where
  "trim s = rev (dropWhile is_space (rev (dropWhile is_space s)))"

definition lower_char :: "char \<Rightarrow> char" where
  "lower_char c =
     (let n = (of_char c :: nat) in if 65 \<le> n \<and> n \<le> 90 then char_of (n + 32) else c)"

definition toLowerCase :: "string \<Rightarrow> string" where
  "toLowerCase s = map lower_char s"

text \<open>\<open>.replace(/[^a-z0-9\s]/g, " ")\<close>\<close>

definition keep_char :: "char \<Rightarrow> bool" where
  "keep_char c =
     (let n = (of_char c :: nat)
      in (97 \<le> n \<and> n \<le> 122) \<or> (48 \<le> n \<and> n \<le> 57) \<or> is_space c)"

definition replace_non_alnum :: "string \<Rightarrow> string" where
  "replace_non_alnum s = map (\<lambda>c. if keep_char c then c else CHR '' '') s"

text \<open>
  \<open>.split(/\s+/)\<close>: the pieces between the maximal runs of white space; a run at the
  start or at the end of the string leaves an empty piece there, and the empty string
  splits into one empty piece. \<open>in_sep\<close> says that the scan is inside a run, \<open>cur\<close> is
  the current piece, reversed.
\<close>

fun split_ws_go :: "bool \<Rightarrow> string \<Rightarrow> string \<Rightarrow> string list" where
  "split_ws_go in_sep cur [] = [rev cur]"
| "split_ws_go in_sep cur (c # cs) =
     (if is_space c then
        (if in_sep then split_ws_go True cur cs
         else rev cur # split_ws_go True [] cs)
      else split_ws_go False (c # cur) cs)"

definition split_ws :: "string \<Rightarrow> string list" where
  "split_ws s = split_ws_go False [] s"

text \<open>
  \<open>.split(/(?<=[\.!\?])\s+/)\<close>: a separator is a maximal run of white space whose
  first code unit follows \<open>.\<close>, \<open>!\<close> or \<open>?\<close>; any other white space stays in its piece.
  \<open>after_punct\<close> says that the previous code unit is one of the three.
\<close>

definition is_terminator :: "char \<Rightarrow> bool" where
  "is_terminator c = (c = CHR ''.'' \<or> c = CHR ''!'' \<or> c = CHR ''?'')"

fun split_sentences_go :: "bool \<Rightarrow> bool \<Rightarrow> string \<Rightarrow> string \<Rightarrow> string list" where
  "split_sentences_go in_sep after_punct cur [] = [rev cur]"
| "split_sentences_go in_sep after_punct cur (c # cs) =
     (if is_space c then
        (if in_sep then split_sentences_go True False cur cs
         else if after_punct then rev cur # split_sentences_go True False [] cs
         else split_sentences_go False False (c # cur) cs)
      else split_sentences_go False (is_terminator c) (c # cur) cs)"

definition splitIntoSentences :: "string \<Rightarrow> string list" where
  "splitIntoSentences text0 =
     filter (\<lambda>s. length s > 0) (map trim (split_sentences_go False False [] text0))"

definition STOPWORDS :: "string set" where
  "STOPWORDS = set [''the'', ''is'', ''and'', ''or'', ''a'', ''an'', ''of'', ''to'', ''in'',
     ''on'', ''for'', ''with'', ''at'', ''by'', ''from'', ''as'', ''that'', ''this'', ''it'',
     ''are'', ''was'', ''be'', ''can'', ''will'', ''shall'']"

text \<open>
  The pipeline \<open>.toLowerCase().replace(...).split(/\s+/).filter((t) => t && !STOPWORDS.has(t))\<close>,
  which the handler applies to a sentence (in \<open>sentenceScore\<close>) and to the question.
\<close>

definition significant_tokens :: "string \<Rightarrow> string list" where
  "significant_tokens s =
     filter (\<lambda>t. t \<noteq> [] \<and> t \<notin> STOPWORDS) (split_ws (replace_non_alnum (toLowerCase s)))"

definition sentenceScore :: "string \<Rightarrow> string set \<Rightarrow> int" where
  "sentenceScore sentence questionTokens =
     foldl (\<lambda>score t. if t \<in> questionTokens then score + 1 else score) 0
       (significant_tokens sentence)"

text \<open>\<open>msgs.join(sep)\<close>\<close>

fun join :: "string \<Rightarrow> string list \<Rightarrow> string" where
  "join sep [] = []"
| "join sep [x] = x"
| "join sep (x # y # ys) = x @ sep @ join sep (y # ys)"

text \<open>
  \<open>text.replace(/pat/g, "")\<close> for a literal, non-empty pattern: the matches are taken
  from left to right and do not overlap.
\<close>

function remove_all :: "string \<Rightarrow> string \<Rightarrow> string" where
  "remove_all pat [] = []"
| "remove_all pat (c # cs) =
     (if pat \<noteq> [] \<and> prefix pat (c # cs)
      then remove_all pat (drop (length pat) (c # cs))
      else c # remove_all pat cs)"
  by pat_completeness auto
termination
  by (relation "measure (\<lambda>(pat, s). length s)") (auto simp: Suc_le_eq)

definition stripPossibleCodeFences :: "string \<Rightarrow> string" where
  "stripPossibleCodeFences text0 =
     trim (remove_all (replicate 3 (CHR 0x60))
       (remove_all (replicate 3 (CHR 0x60) @ ''json'') text0))"

section \<open>Chunks, evidence and supporting extracts\<close>

record ChunkRecord =
  c_id :: string
  c_file_name :: string
  c_page_range :: string
  c_content :: string

text \<open>An entry of the local array \<open>evidences\<close>.\<close>

record evidence =
  e_text :: string
  e_chunk_id :: jsval
  e_file_name :: string
  e_page_range :: string
  e_score :: int

record citation_ref =
  file_name :: string
  page_range :: string

record SupportingExtract =
  x_text :: string
  x_chunk_id :: jsval
  x_citation :: citation_ref

text \<open>\<open>allChunks.forEach((c) => chunkById.set(c.id, c))\<close>: a later chunk replaces an earlier one.\<close>

definition chunkById_of :: "ChunkRecord list \<Rightarrow> (string \<rightharpoonup> ChunkRecord)" where
  "chunkById_of allChunks = foldl (\<lambda>m c. m(c_id c \<mapsto> c)) Map.empty allChunks"

text \<open>\<open>chunkById.get(cid)\<close> on a \<open>Map<string, ChunkRecord>\<close>\<close>

fun map_get :: "(string \<rightharpoonup> ChunkRecord) \<Rightarrow> jsval \<Rightarrow> ChunkRecord option" where
  "map_get m (JStr s) = m s"
| "map_get m v = None"

text \<open>The inner loop over the sentences of one chunk: a sentence scoring 0 is skipped.\<close>

definition sentence_evidences :: "jsval \<Rightarrow> ChunkRecord \<Rightarrow> string set \<Rightarrow> evidence list" where
  "sentence_evidences cid c qTokens =
     concat (map (\<lambda>s.
        (let score = sentenceScore s qTokens
         in if score \<le> 0 then []
            else [\<lparr>e_text = s, e_chunk_id = cid, e_file_name = c_file_name c,
                   e_page_range = c_page_range c, e_score = score\<rparr>]))
       (splitIntoSentences (c_content c)))"

text \<open>The outer loop over \<open>usedChunkIds\<close>: an id without a chunk is skipped.\<close>

definition collect_evidences ::
  "(string \<rightharpoonup> ChunkRecord) \<Rightarrow> string set \<Rightarrow> jsval list \<Rightarrow> evidence list" where
  "collect_evidences chunkById qTokens usedChunkIds =
     concat (map (\<lambda>cid.
        (case map_get chunkById cid of
           None \<Rightarrow> []
         | Some c \<Rightarrow> sentence_evidences cid c qTokens))
       usedChunkIds)"

text \<open>
  \<open>xs.sort(cmp)\<close>: \<open>Array.prototype.sort\<close> is a stable sort (ECMAScript 2019), and with a
  consistent comparator every stable sort returns the same array: the insertion sort
  that puts an element in front of the first one it does not follow.
\<close>

fun insert_cmp :: "('a \<Rightarrow> 'a \<Rightarrow> int) \<Rightarrow> 'a \<Rightarrow> 'a list \<Rightarrow> 'a list" where
  "insert_cmp cmp x [] = [x]"
| "insert_cmp cmp x (y # ys) =
     (if cmp x y \<le> 0 then x # y # ys else y # insert_cmp cmp x ys)"

definition js_sort :: "('a \<Rightarrow> 'a \<Rightarrow> int) \<Rightarrow> 'a list \<Rightarrow> 'a list" where
  "js_sort cmp xs = foldr (insert_cmp cmp) xs []"

definition by_score_desc :: "evidence \<Rightarrow> evidence \<Rightarrow> int" where
  "by_score_desc a b = e_score b - e_score a"

definition to_extract :: "evidence \<Rightarrow> SupportingExtract" where
  "to_extract e =
     \<lparr>x_text = e_text e, x_chunk_id = e_chunk_id e,
      x_citation = \<lparr>file_name = e_file_name e, page_range = e_page_range e\<rparr>\<rparr>"

definition qTokens_of :: "string \<Rightarrow> string set" where
  "qTokens_of question = set (significant_tokens question)"

text \<open>Lines 240 to 292: the supporting extracts of the final \<open>notFound\<close> and \<open>usedChunkIds\<close>.\<close>

definition supportingExtracts ::
  "ChunkRecord list \<Rightarrow> string \<Rightarrow> bool \<Rightarrow> jsval list \<Rightarrow> SupportingExtract list" where
  "supportingExtracts allChunks question notFound usedChunkIds =
     (let qTokens = qTokens_of question
      in if \<not> notFound \<and> length usedChunkIds > 0
         then map to_extract
                (take 8 (js_sort by_score_desc
                   (collect_evidences (chunkById_of allChunks) qTokens usedChunkIds)))
         else [])"

section \<open>The external collaborators\<close>

text \<open>
  The handler awaits five collaborators. Each is a field of the environment of one
  request, a function of the arguments the handler passes, and the handler's result is
  paired with the list of the calls it made, in order.
  A Supabase query resolves to \<open>{ data, error }\<close>, where \<open>error\<close> is \<open>null\<close> or carries a
  message; \<open>embedText\<close> and the \<open>rpc\<close> call may also throw. The completion request
  (\<open>groq.chat.completions.create\<close>) throws or yields a content that may be missing; the
  two prompts are constants and renderings of the evidence and put no constraint on what
  the service answers, so the environment holds the outcome for this request's prompts.
  \<open>followupSchema.safeParse\<close> (zod) and \<open>JSON.parse\<close> are library functions taken as
  parameters: the first yields the messages of its errors or the parsed request, the
  second \<open>None\<close> where it throws a SyntaxError.
\<close>

record 'a response =
  data :: "'a option"
  error :: "string option"

record subject =
  s_id :: string
  s_name :: string
  s_user_id :: string

text \<open>
  The parsed body. \<open>context.last_extracts\<close> is validated by the schema and never read by
  the handler.
\<close>

record request =
  subject_id :: string
  question :: string
  thread_id :: string
  last_chunk_ids :: "string list"

record 'v env =
  safeParse :: "jsval \<Rightarrow> string list + request"
  select_subject :: "string \<Rightarrow> string \<Rightarrow> subject response"
  select_chunks :: "string \<Rightarrow> string \<Rightarrow> string list \<Rightarrow> ChunkRecord list response"
  embedText :: "string \<Rightarrow> js_error + 'v"
  match_chunks :: "string \<Rightarrow> string \<Rightarrow> 'v \<Rightarrow> nat \<Rightarrow> js_error + ChunkRecord list response"
  chat_completion :: "js_error + string option"
  JSON_parse :: "string \<Rightarrow> jsval option"

datatype call = SelectSubject | SelectChunks | EmbedText | MatchChunks | GroqCompletion

text \<open>\<open>callGroqJson\<close>: an absent or empty content is an error.\<close>

definition callGroqJson :: "'v env \<Rightarrow> js_error + string" where
  "callGroqJson env =
     (case chat_completion env of
        Inl e \<Rightarrow> Inl e
      | Inr None \<Rightarrow> Inl (Error ''Groq returned empty response'')
      | Inr (Some content) \<Rightarrow>
          if content = [] then Inl (Error ''Groq returned empty response'') else Inr content)"

section \<open>The follow-up handler\<close>

record FollowupResult =
  r_thread_id :: string
  notFound :: bool
  answer :: jsval
  citations :: "jsval list"
  used_chunk_ids :: "jsval list"
  supporting_extracts :: "SupportingExtract list"

text \<open>The object literal of lines 147 to 154 and 208 to 215.\<close>

definition not_found_result :: "string \<Rightarrow> FollowupResult" where
  "not_found_result tid =
     \<lparr>r_thread_id = tid, notFound = True, answer = JStr NOT_FOUND_ANSWER,
      citations = [], used_chunk_ids = [], supporting_extracts = []\<rparr>"

text \<open>Lines 102 to 118: the chunks of the prior ids.\<close>

definition loadBaseChunks ::
  "'v env \<Rightarrow> string \<Rightarrow> request \<Rightarrow> (js_error + ChunkRecord list) \<times> call list" where
  "loadBaseChunks env userId req =
     (let baseChunkIds = array_from_set (last_chunk_ids req)
      in if length baseChunkIds > 0 then
           (let res = select_chunks env userId (subject_id req) baseChunkIds
            in case error res of
                 Some msg \<Rightarrow> (Inl (Error (''Failed to load context chunks: '' @ msg)), [SelectChunks])
               | None \<Rightarrow>
                   (case data res of
                      Some baseChunks \<Rightarrow> (Inr baseChunks, [SelectChunks])
                    | None \<Rightarrow> (Inr [], [SelectChunks])))
         else (Inr [], []))"

text \<open>
  Lines 129 to 140: a match whose id is not yet present is pushed, and its id is added to
  \<open>existingIds\<close>.
\<close>

fun push_matches :: "ChunkRecord list \<Rightarrow> string set \<Rightarrow> ChunkRecord list \<Rightarrow> ChunkRecord list" where
  "push_matches allChunks existingIds [] = allChunks"
| "push_matches allChunks existingIds (m # ms) =
     (if c_id m \<notin> existingIds
      then push_matches (allChunks @ [m]) (insert (c_id m) existingIds) ms
      else push_matches allChunks existingIds ms)"

text \<open>
  Lines 120 to 144: the similarity search inside \<open>try\<close>; the \<open>catch\<close> logs and goes on
  with \<open>allChunks\<close> as it is.
\<close>

definition vectorSearch ::
  "'v env \<Rightarrow> string \<Rightarrow> request \<Rightarrow> ChunkRecord list \<Rightarrow> ChunkRecord list \<times> call list" where
  "vectorSearch env userId req allChunks =
     (case embedText env (question req) of
        Inl err \<Rightarrow> (allChunks, [EmbedText])
      | Inr questionEmbedding \<Rightarrow>
          (case match_chunks env userId (subject_id req) questionEmbedding 3 of
             Inl err \<Rightarrow> (allChunks, [EmbedText, MatchChunks])
           | Inr res \<Rightarrow>
               (case (error res, data res) of
                  (None, Some matches) \<Rightarrow>
                    if length matches > 0
                    then (push_matches allChunks (c_id ` set allChunks) matches,
                          [EmbedText, MatchChunks])
                    else (allChunks, [EmbedText, MatchChunks])
                | _ \<Rightarrow> (allChunks, [EmbedText, MatchChunks]))))"

text \<open>Lines 102 to 144: the evidence of the request.\<close>

definition assembleEvidence ::
  "'v env \<Rightarrow> string \<Rightarrow> request \<Rightarrow> (js_error + ChunkRecord list) \<times> call list" where
  "assembleEvidence env userId req =
     (case loadBaseChunks env userId req of
        (Inl e, t1) \<Rightarrow> (Inl e, t1)
      | (Inr baseChunks, t1) \<Rightarrow>
          (case vectorSearch env userId req baseChunks of
             (allChunks, t2) \<Rightarrow> (Inr allChunks, t1 @ t2)))"

text \<open>Lines 218 to 221: the four fields of the parsed output, with their defaults.\<close>

definition extract_fields :: "jsval \<Rightarrow> js_error + fields" where
  "extract_fields parsedJson =
     (case get_prop parsedJson ''notFound'' of
        Inl e \<Rightarrow> Inl e
      | Inr nf \<Rightarrow>
          (case get_prop parsedJson ''answer'' of
             Inl e \<Rightarrow> Inl e
           | Inr ans \<Rightarrow>
               (case get_prop parsedJson ''citations'' of
                  Inl e \<Rightarrow> Inl e
                | Inr cits \<Rightarrow>
                    (case get_prop parsedJson ''used_chunk_ids'' of
                       Inl e \<Rightarrow> Inl e
                     | Inr used \<Rightarrow>
                         Inr (truthy nf, nullish_or ans (JStr []),
                              array_or_empty cits, array_or_empty used)))))"

text \<open>Lines 157 to 301: the completion, its parsing, the sanitizer and the extracts.\<close>

definition answerFromEvidence ::
  "'v env \<Rightarrow> request \<Rightarrow> ChunkRecord list \<Rightarrow> (js_error + FollowupResult) \<times> call list" where
  "answerFromEvidence env req allChunks =
     (let allowedChunkIds = c_id ` set allChunks
      in case callGroqJson env of
           Inl e \<Rightarrow> (Inl e, [GroqCompletion])
         | Inr raw \<Rightarrow>
             (let cleaned = stripPossibleCodeFences raw
              in case JSON_parse env cleaned of
                   None \<Rightarrow> (Inr (not_found_result (thread_id req)), [GroqCompletion])
                 | Some parsedJson \<Rightarrow>
                     (case extract_fields parsedJson of
                        Inl e \<Rightarrow> (Inl e, [GroqCompletion])
                      | Inr f \<Rightarrow>
                          (case sanitize allowedChunkIds f of
                             Inl e \<Rightarrow> (Inl e, [GroqCompletion])
                           | Inr (notFound1, answer1, citations1, usedChunkIds1) \<Rightarrow>
                               (Inr \<lparr>r_thread_id = thread_id req, notFound = notFound1,
                                     answer = answer1, citations = citations1,
                                     used_chunk_ids = usedChunkIds1,
                                     supporting_extracts =
                                       supportingExtracts allChunks (question req)
                                         notFound1 usedChunkIds1\<rparr>,
                                [GroqCompletion])))))"

text \<open>
  \<open>handleQaFollowup(userId, body)\<close>: \<open>Inl\<close> is the error the promise rejects with,
  \<open>Inr\<close> the object it resolves to. The test \<open>subjectError || !subject\<close> is the pair of
  cases on the error and on the row.
\<close>

definition handleQaFollowup ::
  "'v env \<Rightarrow> string \<Rightarrow> jsval \<Rightarrow> (js_error + FollowupResult) \<times> call list" where
  "handleQaFollowup env userId body =
     (case safeParse env body of
        Inl msgs \<Rightarrow> (Inl (Error (join ''; '' msgs)), [])
      | Inr req \<Rightarrow>
          (let sres = select_subject env (subject_id req) userId
           in case error sres of
                Some subjectError \<Rightarrow>
                  (Inl (Error ''Subject not found for user''), [SelectSubject])
              | None \<Rightarrow>
                  (case data sres of
                     None \<Rightarrow> (Inl (Error ''Subject not found for user''), [SelectSubject])
                   | Some subject \<Rightarrow>
                       (case assembleEvidence env userId req of
                          (Inl e, t1) \<Rightarrow> (Inl e, SelectSubject # t1)
                        | (Inr allChunks, t1) \<Rightarrow>
                            if length allChunks = 0
                            then (Inr (not_found_result (thread_id req)), SelectSubject # t1)
                            else
                              (case answerFromEvidence env req allChunks of
                                 (out, t2) \<Rightarrow> (out, SelectSubject # t1 @ t2))))))"

section \<open>Concrete requests\<close>

text \<open>
  The environment of a request that passes validation for the user \<open>u1\<close>: the prior
  ids \<open>prior\<close> resolve to the chunks \<open>base\<close>, the similarity search has the outcome
  \<open>search\<close>, the completion service answers \<open>raw\<close>, and \<open>JSON.parse\<close> maps the text
  \<open>cleaned\<close> to \<open>parsed\<close> and throws on every other text.
\<close>

definition quoted :: "string \<Rightarrow> string" where
  "quoted s = CHR 0x22 # s @ [CHR 0x22]"

definition demo_subject_id :: string where
  "demo_subject_id = ''6f1c2b7e-3a4d-4e5f-8a9b-0c1d2e3f4a5b''"

definition demo_chunk_uuid :: string where
  "demo_chunk_uuid = ''0b9d8c7a-1e2f-4a3b-9c4d-5e6f7a8b9c0d''"

definition demo_request :: "string list \<Rightarrow> request" where
  "demo_request prior =
     \<lparr>subject_id = demo_subject_id, question = ''How do plants convert light?'',
      thread_id = ''thread-1'', last_chunk_ids = prior\<rparr>"

definition demo_body :: "string list \<Rightarrow> jsval" where
  "demo_body prior =
     JObj [(''subject_id'', JStr demo_subject_id),
           (''question'', JStr ''How do plants convert light?''),
           (''thread_id'', JStr ''thread-1''),
           (''context'', JObj [(''last_chunk_ids'', JArr (map JStr prior)),
                               (''last_extracts'', JArr [])])]"

definition demo_env ::
  "string list \<Rightarrow> ChunkRecord list \<Rightarrow> (js_error + ChunkRecord list response) \<Rightarrow>
   (js_error + string option) \<Rightarrow> string \<Rightarrow> jsval option \<Rightarrow> nat list env" where
  "demo_env prior base search raw cleaned parsed =
     \<lparr>safeParse = (\<lambda>b. if b = demo_body prior then Inr (demo_request prior)
                        else Inl [''Required'']),
      select_subject = (\<lambda>sid uid.
         if sid = demo_subject_id \<and> uid = ''u1''
         then \<lparr>data = Some \<lparr>s_id = sid, s_name = ''Biology'', s_user_id = uid\<rparr>, error = None\<rparr>
         else \<lparr>data = None, error = Some ''no rows''\<rparr>),
      select_chunks = (\<lambda>uid sid ids. \<lparr>data = Some base, error = None\<rparr>),
      embedText = (\<lambda>q. case search of Inl e \<Rightarrow> Inl e | Inr res \<Rightarrow> Inr [1, 0, 2]),
      match_chunks = (\<lambda>uid sid v k. search),
      chat_completion = raw,
      JSON_parse = (\<lambda>t. if t = cleaned then parsed else None)\<rparr>"

definition chunk_c1 :: ChunkRecord where
  "chunk_c1 =
     \<lparr>c_id = ''c1'', c_file_name = ''biology.pdf'', c_page_range = ''3-4'',
      c_content = ''Photosynthesis converts light into chemical energy. Plants use chlorophyll.''\<rparr>"

definition search_finds :: "ChunkRecord list \<Rightarrow> js_error + ChunkRecord list response" where
  "search_finds ms = Inr \<lparr>data = Some ms, error = None\<rparr>"

text \<open>
  Scenario A: the search finds the chunk \<open>c1\<close>, and the model answers with one citation of
  \<open>c1\<close> and \<open>used_chunk_ids = ["c1"]\<close>.
\<close>

definition raw_A :: string where
  "raw_A = ''{'' @ quoted ''notFound'' @ '':false,'' @ quoted ''answer'' @ '':''
     @ quoted ''Plants turn light into chemical energy.'' @ '','' @ quoted ''citations''
     @ '':[{'' @ quoted ''chunk_id'' @ '':'' @ quoted ''c1'' @ '','' @ quoted ''file_name''
     @ '':'' @ quoted ''biology.pdf'' @ '','' @ quoted ''page_range'' @ '':'' @ quoted ''3-4''
     @ ''}],'' @ quoted ''used_chunk_ids'' @ '':['' @ quoted ''c1'' @ '']}''"

definition citation_A :: jsval where
  "citation_A = JObj [(''chunk_id'', JStr ''c1''), (''file_name'', JStr ''biology.pdf''),
                      (''page_range'', JStr ''3-4'')]"

definition parsed_A :: jsval where
  "parsed_A = JObj [(''notFound'', JBool False),
                    (''answer'', JStr ''Plants turn light into chemical energy.''),
                    (''citations'', JArr [citation_A]),
                    (''used_chunk_ids'', JArr [JStr ''c1''])]"

definition env_A :: "nat list env" where
  "env_A = demo_env [] [] (search_finds [chunk_c1]) (Inr (Some raw_A)) raw_A (Some parsed_A)"

definition sentence_photosynthesis :: string where
  "sentence_photosynthesis = ''Photosynthesis converts light into chemical energy.''"

definition sentence_chlorophyll :: string where
  "sentence_chlorophyll = ''Plants use chlorophyll.''"

definition result_A :: FollowupResult where
  "result_A =
     \<lparr>r_thread_id = ''thread-1'', notFound = False,
      answer = JStr ''Plants turn light into chemical energy.'',
      citations = [citation_A], used_chunk_ids = [JStr ''c1''],
      supporting_extracts =
        [\<lparr>x_text = sentence_photosynthesis, x_chunk_id = JStr ''c1'',
          x_citation = \<lparr>file_name = ''biology.pdf'', page_range = ''3-4''\<rparr>\<rparr>,
         \<lparr>x_text = sentence_chlorophyll, x_chunk_id = JStr ''c1'',
          x_citation = \<lparr>file_name = ''biology.pdf'', page_range = ''3-4''\<rparr>\<rparr>]\<rparr>"

text \<open>Scenario B: the only citation names \<open>c999\<close>, which is not in the evidence.\<close>

definition citation_c999 :: jsval where
  "citation_c999 = JObj [(''chunk_id'', JStr ''c999''), (''file_name'', JStr ''made-up.pdf''),
                         (''page_range'', JStr ''1'')]"

definition raw_B :: string where
  "raw_B = ''{'' @ quoted ''notFound'' @ '':false,'' @ quoted ''answer'' @ '':''
     @ quoted ''Plants eat light.'' @ '','' @ quoted ''citations''
     @ '':[{'' @ quoted ''chunk_id'' @ '':'' @ quoted ''c999'' @ '','' @ quoted ''file_name''
     @ '':'' @ quoted ''made-up.pdf'' @ '','' @ quoted ''page_range'' @ '':'' @ quoted ''1''
     @ ''}],'' @ quoted ''used_chunk_ids'' @ '':[]}''"

definition parsed_B :: jsval where
  "parsed_B = JObj [(''notFound'', JBool False), (''answer'', JStr ''Plants eat light.''),
                    (''citations'', JArr [citation_c999]), (''used_chunk_ids'', JArr [])]"

definition env_B :: "nat list env" where
  "env_B = demo_env [] [] (search_finds [chunk_c1]) (Inr (Some raw_B)) raw_B (Some parsed_B)"

text \<open>Scenario D: the answer is cut off, and \<open>JSON.parse\<close> throws.\<close>

definition raw_D :: string where
  "raw_D = ''{'' @ quoted ''notFound'' @ '':fal''"

definition env_D :: "nat list env" where
  "env_D = demo_env [] [] (search_finds [chunk_c1]) (Inr (Some raw_D)) raw_D None"

text \<open>
  An answer that is JSON with fields of the wrong shape: \<open>answer\<close> is a number,
  \<open>used_chunk_ids\<close> a string, and the citation has a \<open>chunk_id\<close> only.
\<close>

definition raw_shape :: string where
  "raw_shape = ''{'' @ quoted ''answer'' @ '':5,'' @ quoted ''citations''
     @ '':[{'' @ quoted ''chunk_id'' @ '':'' @ quoted ''c1'' @ ''}],''
     @ quoted ''used_chunk_ids'' @ '':'' @ quoted ''c1'' @ ''}''"

definition parsed_shape :: jsval where
  "parsed_shape = JObj [(''answer'', JNum 5),
                        (''citations'', JArr [JObj [(''chunk_id'', JStr ''c1'')]]),
                        (''used_chunk_ids'', JStr ''c1'')]"

definition env_shape :: "nat list env" where
  "env_shape =
     demo_env [] [] (search_finds [chunk_c1]) (Inr (Some raw_shape)) raw_shape (Some parsed_shape)"

text \<open>An answer whose \<open>citations\<close> array holds \<open>null\<close>.\<close>

definition raw_null_citation :: string where
  "raw_null_citation = ''{'' @ quoted ''citations'' @ '':[null]}''"

definition parsed_null_citation :: jsval where
  "parsed_null_citation = JObj [(''citations'', JArr [JNull])]"

definition env_null_citation :: "nat list env" where
  "env_null_citation =
     demo_env [] [] (search_finds [chunk_c1]) (Inr (Some raw_null_citation)) raw_null_citation
       (Some parsed_null_citation)"

text \<open>An answer whose citation of \<open>c1\<close> invents the file name and the page range.\<close>

definition citation_invented :: jsval where
  "citation_invented = JObj [(''chunk_id'', JStr ''c1''), (''file_name'', JStr ''invented.pdf''),
                             (''page_range'', JStr ''99'')]"

definition raw_invented :: string where
  "raw_invented = ''{'' @ quoted ''notFound'' @ '':false,'' @ quoted ''answer'' @ '':''
     @ quoted ''Plants turn light into chemical energy.'' @ '','' @ quoted ''citations''
     @ '':[{'' @ quoted ''chunk_id'' @ '':'' @ quoted ''c1'' @ '','' @ quoted ''file_name''
     @ '':'' @ quoted ''invented.pdf'' @ '','' @ quoted ''page_range'' @ '':'' @ quoted ''99''
     @ ''}],'' @ quoted ''used_chunk_ids'' @ '':['' @ quoted ''c1'' @ '']}''"

definition parsed_invented :: jsval where
  "parsed_invented = JObj [(''notFound'', JBool False),
                           (''answer'', JStr ''Plants turn light into chemical energy.''),
                           (''citations'', JArr [citation_invented]),
                           (''used_chunk_ids'', JArr [JStr ''c1''])]"

definition env_invented :: "nat list env" where
  "env_invented =
     demo_env [] [] (search_finds [chunk_c1]) (Inr (Some raw_invented)) raw_invented
       (Some parsed_invented)"

text \<open>An answer without \<open>answer\<close> and without \<open>notFound\<close>, with a valid citation.\<close>

definition raw_no_answer :: string where
  "raw_no_answer = ''{'' @ quoted ''citations''
     @ '':[{'' @ quoted ''chunk_id'' @ '':'' @ quoted ''c1'' @ '','' @ quoted ''file_name''
     @ '':'' @ quoted ''biology.pdf'' @ '','' @ quoted ''page_range'' @ '':'' @ quoted ''3-4''
     @ ''}]}''"

definition parsed_no_answer :: jsval where
  "parsed_no_answer = JObj [(''citations'', JArr [citation_A])]"

definition env_no_answer :: "nat list env" where
  "env_no_answer =
     demo_env [] [] (search_finds [chunk_c1]) (Inr (Some raw_no_answer)) raw_no_answer
       (Some parsed_no_answer)"

text \<open>Scenario C: no prior ids, and the embedding call throws.\<close>

definition search_down :: "js_error + ChunkRecord list response" where
  "search_down = Inl (Error ''embedding service unavailable'')"

definition env_C :: "nat list env" where
  "env_C = demo_env [] [] search_down (Inr (Some raw_A)) raw_A (Some parsed_A)"

text \<open>One prior id that resolves to a chunk, and the embedding call throws.\<close>

definition chunk_prior :: ChunkRecord where
  "chunk_prior =
     \<lparr>c_id = demo_chunk_uuid, c_file_name = ''biology.pdf'', c_page_range = ''5'',
      c_content = ''Chlorophyll absorbs light. It is green!''\<rparr>"

definition env_prior :: "nat list env" where
  "env_prior =
     demo_env [demo_chunk_uuid] [chunk_prior] search_down (Inr (Some raw_A)) raw_A (Some parsed_A)"

text \<open>
  A request with two chunks of evidence. The search finds \<open>c2\<close> before \<open>c1\<close>, and the
  model uses \<open>c1\<close> before \<open>c2\<close>. The second chunk has eight sentences: one shares no
  token with the question, and the last one, the ninth sentence discovered with a
  positive score, has the highest score.
\<close>

definition chunk_c2 :: ChunkRecord where
  "chunk_c2 =
     \<lparr>c_id = ''c2'', c_file_name = ''botany.pdf'', c_page_range = ''7'',
      c_content = ''Leaves absorb light. Plants need light! Water is wet. Do roots grow? ''
        @ ''Some plants flower. How odd. Light travels fast. Plants convert light daily.''\<rparr>"

definition citation_c2 :: jsval where
  "citation_c2 = JObj [(''chunk_id'', JStr ''c2''), (''file_name'', JStr ''botany.pdf''),
                       (''page_range'', JStr ''7'')]"

definition raw_R :: string where
  "raw_R = ''{'' @ quoted ''notFound'' @ '':false,'' @ quoted ''answer'' @ '':''
     @ quoted ''Plants convert light daily.'' @ '','' @ quoted ''citations''
     @ '':[{'' @ quoted ''chunk_id'' @ '':'' @ quoted ''c1'' @ '','' @ quoted ''file_name''
     @ '':'' @ quoted ''biology.pdf'' @ '','' @ quoted ''page_range'' @ '':'' @ quoted ''3-4''
     @ ''},{'' @ quoted ''chunk_id'' @ '':'' @ quoted ''c2'' @ '','' @ quoted ''file_name''
     @ '':'' @ quoted ''botany.pdf'' @ '','' @ quoted ''page_range'' @ '':'' @ quoted ''7''
     @ ''}],'' @ quoted ''used_chunk_ids'' @ '':['' @ quoted ''c1'' @ '','' @ quoted ''c2''
     @ '']}''"

definition parsed_R :: jsval where
  "parsed_R = JObj [(''notFound'', JBool False),
                    (''answer'', JStr ''Plants convert light daily.''),
                    (''citations'', JArr [citation_A, citation_c2]),
                    (''used_chunk_ids'', JArr [JStr ''c1'', JStr ''c2''])]"

definition env_R :: "nat list env" where
  "env_R =
     demo_env [] [] (search_finds [chunk_c2, chunk_c1]) (Inr (Some raw_R)) raw_R (Some parsed_R)"

definition extract_of :: "ChunkRecord \<Rightarrow> string \<Rightarrow> SupportingExtract" where
  "extract_of c s =
     \<lparr>x_text = s, x_chunk_id = JStr (c_id c),
      x_citation = \<lparr>file_name = c_file_name c, page_range = c_page_range c\<rparr>\<rparr>"

definition result_R :: FollowupResult where
  "result_R =
     \<lparr>r_thread_id = ''thread-1'', notFound = False,
      answer = JStr ''Plants convert light daily.'',
      citations = [citation_A, citation_c2], used_chunk_ids = [JStr ''c1'', JStr ''c2''],
      supporting_extracts =
        [extract_of chunk_c2 ''Plants convert light daily.'',
         extract_of chunk_c2 ''Plants need light!'',
         extract_of chunk_c1 sentence_photosynthesis,
         extract_of chunk_c1 sentence_chlorophyll,
         extract_of chunk_c2 ''Leaves absorb light.'',
         extract_of chunk_c2 ''Do roots grow?'',
         extract_of chunk_c2 ''Some plants flower.'',
         extract_of chunk_c2 ''How odd.'']\<rparr>"

section \<open>Helper predicates of the proofs\<close>

text \<open>A citation that passed the filter: its \<open>chunk_id\<close> is a string among the allowed ids.\<close>

definition cites_allowed :: "string set \<Rightarrow> jsval \<Rightarrow> bool" where
  "cites_allowed ids c =
     (case get_prop c ''chunk_id'' of Inl e \<Rightarrow> False | Inr v \<Rightarrow> set_has ids v)"

text \<open>The rows the prior-id query returned (none when the query was not made).\<close>

definition fetched_prior :: "'v env \<Rightarrow> string \<Rightarrow> request \<Rightarrow> ChunkRecord list" where
  "fetched_prior env userId req =
     (if array_from_set (last_chunk_ids req) = [] then []
      else (case data (select_chunks env userId (subject_id req)
                         (array_from_set (last_chunk_ids req))) of
              Some rows \<Rightarrow> rows
            | None \<Rightarrow> []))"

text \<open>The embedding call or the \<open>rpc\<close> call throws.\<close>

definition search_throws :: "'v env \<Rightarrow> string \<Rightarrow> request \<Rightarrow> bool" where
  "search_throws env userId req =
     (case embedText env (question req) of
        Inl e \<Rightarrow> True
      | Inr v \<Rightarrow>
          (case match_chunks env userId (subject_id req) v 3 of
             Inl e \<Rightarrow> True
           | Inr res \<Rightarrow> False))"

text \<open>The \<open>rpc\<close> call resolves with an error, with no rows at all or with an empty list.\<close>

definition search_without_matches :: "'v env \<Rightarrow> string \<Rightarrow> request \<Rightarrow> bool" where
  "search_without_matches env userId req =
     (case embedText env (question req) of
        Inl e \<Rightarrow> False
      | Inr v \<Rightarrow>
          (case match_chunks env userId (subject_id req) v 3 of
             Inl e \<Rightarrow> False
           | Inr res \<Rightarrow> error res \<noteq> None \<or> data res = None \<or> data res = Some []))"

text \<open>The rows the similarity search returned.\<close>

definition search_rows :: "'v env \<Rightarrow> string \<Rightarrow> request \<Rightarrow> ChunkRecord list" where
  "search_rows env userId req =
     (case embedText env (question req) of
        Inl e \<Rightarrow> []
      | Inr v \<Rightarrow>
          (case match_chunks env userId (subject_id req) v 3 of
             Inl e \<Rightarrow> []
           | Inr res \<Rightarrow> (case data res of Some rows \<Rightarrow> rows | None \<Rightarrow> [])))"

text \<open>The subject query finds the subject of the request for the user.\<close>

definition subject_found :: "'v env \<Rightarrow> string \<Rightarrow> request \<Rightarrow> bool" where
  "subject_found env userId req =
     (error (select_subject env (subject_id req) userId) = None \<and>
      data (select_subject env (subject_id req) userId) \<noteq> None)"

text \<open>The environment in which the similarity search succeeds and finds nothing.\<close>

definition with_empty_search :: "'v \<Rightarrow> 'v env \<Rightarrow> 'v env" where
  "with_empty_search v env =
     env\<lparr>embedText := (\<lambda>q. Inr v),
         match_chunks := (\<lambda>uid sid emb k. Inr \<lparr>data = Some [], error = None\<rparr>)\<rparr>"

text \<open>The score of an extract's sentence against the question.\<close>

definition extract_score :: "string \<Rightarrow> SupportingExtract \<Rightarrow> int" where
  "extract_score q x = sentenceScore (x_text x) (qTokens_of q)"

section \<open>Properties of the sanitizer\<close>

lemma set_foldl_set_add: "set (foldl set_add acc xs) = set acc \<union> set xs"
  by (induction xs arbitrary: acc) (auto simp: set_add_def)

lemma distinct_foldl_set_add: "distinct acc \<Longrightarrow> distinct (foldl set_add acc xs)"
  by (induction xs arbitrary: acc) (auto simp: set_add_def)

lemma foldl_set_add_distinct:
  "distinct (acc @ xs) \<Longrightarrow> foldl set_add acc xs = acc @ xs"
  by (induction xs arbitrary: acc) (auto simp: set_add_def)

lemma set_array_from_set: "set (array_from_set xs) = set xs"
  by (simp add: array_from_set_def set_foldl_set_add)

lemma distinct_array_from_set: "distinct (array_from_set xs)"
  by (simp add: array_from_set_def distinct_foldl_set_add)

lemma array_from_set_distinct: "distinct xs \<Longrightarrow> array_from_set xs = xs"
  using foldl_set_add_distinct [of "[]" xs] by (simp add: array_from_set_def)

lemma array_from_set_empty: "array_from_set xs = [] \<longleftrightarrow> xs = []"
  using set_array_from_set [of xs] by (metis set_empty)

lemma filter_citations_eq:
  "filter_citations ids cs = Inr r \<Longrightarrow> r = filter (cites_allowed ids) cs"
  by (induction cs arbitrary: r) (auto simp: cites_allowed_def split: sum.splits if_splits)

lemma filter_citations_fixed:
  "list_all (cites_allowed ids) r \<Longrightarrow> filter_citations ids r = Inr r"
  by (induction r) (auto simp: cites_allowed_def split: sum.splits)

lemma set_has_iff: "set_has ids v \<longleftrightarrow> (\<exists>s. v = JStr s \<and> s \<in> ids)"
  by (cases v) auto

lemma filter_citations_all:
  "filter_citations ids cs = Inr r \<Longrightarrow> list_all (cites_allowed ids) r"
  by (drule filter_citations_eq) (simp add: list_all_iff)

lemma map_chunk_id_allowed:
  "list_all (cites_allowed ids) r \<Longrightarrow>
   \<exists>vs. map_chunk_id r = Inr vs \<and> list_all (set_has ids) vs \<and> length vs = length r"
  by (induction r) (auto simp: cites_allowed_def split: sum.splits)


lemma sanitize_cases:
  assumes "sanitize ids f = Inr g"
  shows "g = (True, JStr NOT_FOUND_ANSWER, [], []) \<or>
         (\<exists>ans cits used.
            g = (False, ans, cits, used) \<and> cits \<noteq> [] \<and> used \<noteq> [] \<and>
            list_all (cites_allowed ids) cits \<and> list_all (set_has ids) used \<and>
            distinct used \<and> ans = fst (snd f) \<and>
            cits = filter (cites_allowed ids) (fst (snd (snd f))))"
proof -
  obtain nf ans cits used where f: "f = (nf, ans, cits, used)"
    by (cases f) auto
  from assms f obtain c1 where c1: "filter_citations ids cits = Inr c1"
    by (auto simp: sanitize_def split: sum.splits)
  from assms f c1 obtain u1 where
    u1: "(if used = [] then map_chunk_id c1 else Inr used) = Inr u1"
    by (auto simp: sanitize_def split: sum.splits)
  define u2 where "u2 = array_from_set (filter (set_has ids) u1)"
  have g: "g = (if c1 = [] \<or> u2 = [] \<or> nf then (True, JStr NOT_FOUND_ANSWER, [], [])
                else (False, ans, c1, u2))"
    using assms f c1 u1 by (auto simp: sanitize_def u2_def Let_def split: if_splits)
  have "list_all (cites_allowed ids) c1"
    using c1 by (rule filter_citations_all)
  moreover have "list_all (set_has ids) u2" "distinct u2"
    by (simp_all add: u2_def list_all_iff set_array_from_set distinct_array_from_set)
  moreover have "c1 = filter (cites_allowed ids) cits"
    using c1 by (rule filter_citations_eq)
  ultimately show ?thesis
    using g f by auto
qed

subsection \<open>Idempotence\<close>

text \<open>
  C3. The sanitization step, as a function of the four fields and the set of allowed ids,
  is idempotent: applied to an output of its own with the same allowed ids, it returns
  that output unchanged.
\<close>

theorem sanitize_idempotent:
  assumes "sanitize ids f = Inr g"
  shows "sanitize ids g = Inr g"
proof -
  from sanitize_cases [OF assms] show ?thesis
  proof (elim disjE exE conjE)
    assume "g = (True, JStr NOT_FOUND_ANSWER, [], [])"
    then show ?thesis by (simp add: sanitize_def array_from_set_def)
  next
    fix ans cits used
    assume g: "g = (False, ans, cits, used)"
      and ne: "cits \<noteq> []" "used \<noteq> []"
      and ok: "list_all (cites_allowed ids) cits" "list_all (set_has ids) used"
      and d: "distinct used"
    have c: "filter_citations ids cits = Inr cits"
      using ok(1) by (rule filter_citations_fixed)
    have "filter (set_has ids) used = used"
      using ok(2) by (simp add: list_all_iff)
    then have u: "array_from_set (filter (set_has ids) used) = used"
      using d by (simp add: array_from_set_distinct)
    show ?thesis
      using g ne c u by (simp add: sanitize_def)
  qed
qed

theorem sanitize_idempotent_witness:
  "sanitize {''c1''} (False, JStr ''ok'', [citation_A, citation_c999], [])
     = Inr (False, JStr ''ok'', [citation_A], [JStr ''c1'']) \<and>
   sanitize {''c1''} (False, JStr ''ok'', [citation_A], [JStr ''c1''])
     = Inr (False, JStr ''ok'', [citation_A], [JStr ''c1''])"
proof -
  have h: "sanitize {''c1''} (False, JStr ''ok'', [citation_A, citation_c999], [])
     = Inr (False, JStr ''ok'', [citation_A], [JStr ''c1''])"
    by code_simp
  from sanitize_idempotent [OF h] h show ?thesis by simp
qed

section \<open>The results of the handler\<close>

lemma answerFromEvidence_cases:
  assumes "answerFromEvidence env req allChunks = (Inr r, t)"
  shows "t = [GroqCompletion] \<and>
         (r = not_found_result (thread_id req) \<or>
          (\<exists>pj f nf ans cits used.
             extract_fields pj = Inr f \<and>
             sanitize (c_id ` set allChunks) f = Inr (nf, ans, cits, used) \<and>
             r = \<lparr>r_thread_id = thread_id req, notFound = nf, answer = ans,
                  citations = cits, used_chunk_ids = used,
                  supporting_extracts =
                    supportingExtracts allChunks (question req) nf used\<rparr>))"
  using assms
  by (auto simp: answerFromEvidence_def Let_def split: sum.splits option.splits prod.splits)

lemma handleQaFollowup_cases:
  assumes "handleQaFollowup env userId body = (Inr r, calls)"
  shows "\<exists>req allChunks t1.
           safeParse env body = Inr req \<and>
           assembleEvidence env userId req = (Inr allChunks, t1) \<and>
           (r = not_found_result (thread_id req) \<or>
            (\<exists>f nf ans cits used.
               sanitize (c_id ` set allChunks) f = Inr (nf, ans, cits, used) \<and>
               r = \<lparr>r_thread_id = thread_id req, notFound = nf, answer = ans,
                    citations = cits, used_chunk_ids = used,
                    supporting_extracts =
                      supportingExtracts allChunks (question req) nf used\<rparr>))"
proof -
  from assms obtain req where req: "safeParse env body = Inr req"
    by (auto simp: handleQaFollowup_def split: sum.splits)
  from assms req obtain allChunks t1 where
    ev: "assembleEvidence env userId req = (Inr allChunks, t1)"
    by (auto simp: handleQaFollowup_def Let_def
        split: sum.splits prod.splits if_splits option.splits)
  show ?thesis
  proof (cases "allChunks = []")
    case True
    with assms req ev have "r = not_found_result (thread_id req)"
      by (auto simp: handleQaFollowup_def Let_def split: if_splits option.splits)
    with req ev show ?thesis by blast
  next
    case False
    with assms req ev obtain t2 where
      "answerFromEvidence env req allChunks = (Inr r, t2)"
      by (auto simp: handleQaFollowup_def Let_def split: if_splits prod.splits option.splits)
    from answerFromEvidence_cases [OF this] req ev show ?thesis by blast
  qed
qed

subsection \<open>The not-found invariant\<close>

text \<open>
  C1. For every result the handler returns, \<open>notFound\<close> holds if and only if the
  citations and the used chunk ids are both empty, and whenever \<open>notFound\<close> holds the
  answer is exactly the fixed sentence; on every returning path (empty evidence, JSON
  parse failure, the sanitized main path).
\<close>

theorem followup_notFound_iff:
  assumes "handleQaFollowup env userId body = (Inr r, calls)"
  shows "(notFound r \<longleftrightarrow> citations r = [] \<and> used_chunk_ids r = []) \<and>
         (notFound r \<longrightarrow> answer r = JStr NOT_FOUND_ANSWER)"
proof -
  from handleQaFollowup_cases [OF assms] obtain req :: request and allChunks where
    "r = not_found_result (thread_id req) \<or>
     (\<exists>f nf ans cits used.
        sanitize (c_id ` set allChunks) f = Inr (nf, ans, cits, used) \<and>
        r = \<lparr>r_thread_id = thread_id req, notFound = nf, answer = ans,
             citations = cits, used_chunk_ids = used,
             supporting_extracts = supportingExtracts allChunks (question req) nf used\<rparr>)"
    by blast
  then show ?thesis
  proof (elim disjE exE conjE)
    assume "r = not_found_result (thread_id req)"
    then show ?thesis by (simp add: not_found_result_def)
  next
    fix f nf ans cits used
    assume s: "sanitize (c_id ` set allChunks) f = Inr (nf, ans, cits, used)"
      and r: "r = \<lparr>r_thread_id = thread_id req, notFound = nf, answer = ans,
             citations = cits, used_chunk_ids = used,
             supporting_extracts = supportingExtracts allChunks (question req) nf used\<rparr>"
    from sanitize_cases [OF s] r show ?thesis by auto
  qed
qed

theorem followup_notFound_iff_witness:
  "handleQaFollowup env_B ''u1'' (demo_body []) =
     (Inr (not_found_result ''thread-1''),
      [SelectSubject, EmbedText, MatchChunks, GroqCompletion]) \<and>
   notFound (not_found_result ''thread-1'') \<and>
   citations (not_found_result ''thread-1'') = [] \<and>
   used_chunk_ids (not_found_result ''thread-1'') = [] \<and>
   answer (not_found_result ''thread-1'') = JStr NOT_FOUND_ANSWER"
proof -
  have run: "handleQaFollowup env_B ''u1'' (demo_body []) =
     (Inr (not_found_result ''thread-1''),
      [SelectSubject, EmbedText, MatchChunks, GroqCompletion])"
    by code_simp
  have nf: "notFound (not_found_result ''thread-1'')"
    by (simp add: not_found_result_def)
  from followup_notFound_iff [OF run] nf run show ?thesis by simp
qed

section \<open>The evidence assembler\<close>

lemma push_matches_set:
  "set (push_matches allChunks existing ms) \<subseteq> set allChunks \<union> set ms"
  by (induction allChunks existing ms rule: push_matches.induct) auto

lemma loadBaseChunks_rows:
  "loadBaseChunks env userId req = (Inr base, t) \<Longrightarrow> base = fetched_prior env userId req"
  by (auto simp: loadBaseChunks_def fetched_prior_def Let_def split: if_splits option.splits)

lemma loadBaseChunks_calls:
  "GroqCompletion \<notin> set (snd (loadBaseChunks env userId req))"
  by (auto simp: loadBaseChunks_def Let_def split: if_splits option.splits)

lemma vectorSearch_rows:
  "vectorSearch env userId req base = (allChunks, t) \<Longrightarrow>
   set allChunks \<subseteq> set base \<union> set (search_rows env userId req)"
  using push_matches_set [of base "c_id ` set base"]
  by (auto simp: vectorSearch_def search_rows_def split: sum.splits option.splits if_splits)

lemma vectorSearch_calls:
  "GroqCompletion \<notin> set (snd (vectorSearch env userId req base))"
  by (auto simp: vectorSearch_def split: sum.splits option.splits if_splits)

lemma assembleEvidence_rows:
  assumes "assembleEvidence env userId req = (Inr allChunks, t)"
  shows "set allChunks \<subseteq> set (fetched_prior env userId req) \<union> set (search_rows env userId req)"
proof -
  from assms obtain base t1 t2 where
    b: "loadBaseChunks env userId req = (Inr base, t1)" and
    v: "vectorSearch env userId req base = (allChunks, t2)"
    by (auto simp: assembleEvidence_def split: prod.splits sum.splits)
  from loadBaseChunks_rows [OF b] vectorSearch_rows [OF v] show ?thesis by simp
qed

lemma assembleEvidence_calls:
  "GroqCompletion \<notin> set (snd (assembleEvidence env userId req))"
proof (cases "loadBaseChunks env userId req")
  case (Pair out t1)
  have t1: "GroqCompletion \<notin> set t1"
    using loadBaseChunks_calls [of env userId req] Pair by simp
  show ?thesis
  proof (cases out)
    case (Inl e)
    with Pair t1 show ?thesis by (simp add: assembleEvidence_def)
  next
    case (Inr base)
    obtain allChunks t2 where v: "vectorSearch env userId req base = (allChunks, t2)"
      by (cases "vectorSearch env userId req base") auto
    have "GroqCompletion \<notin> set t2"
      using vectorSearch_calls [of env userId req base] v by simp
    with Pair Inr t1 v show ?thesis by (simp add: assembleEvidence_def)
  qed
qed

lemma vectorSearch_throws:
  "search_throws env userId req \<Longrightarrow> fst (vectorSearch env userId req base) = base"
  by (auto simp: vectorSearch_def search_throws_def split: sum.splits)

lemma vectorSearch_without_matches:
  "search_without_matches env userId req \<Longrightarrow> fst (vectorSearch env userId req base) = base"
  by (auto simp: vectorSearch_def search_without_matches_def split: sum.splits option.splits)

lemma vectorSearch_empty_search:
  "fst (vectorSearch (with_empty_search v env) userId req base) = base"
  by (simp add: vectorSearch_def with_empty_search_def)

lemma loadBaseChunks_empty_search:
  "loadBaseChunks (with_empty_search v env) userId req = loadBaseChunks env userId req"
  by (simp add: loadBaseChunks_def with_empty_search_def Let_def)

lemma answerFromEvidence_empty_search:
  "answerFromEvidence (with_empty_search v env) req allChunks = answerFromEvidence env req allChunks"
  by (simp add: answerFromEvidence_def callGroqJson_def with_empty_search_def Let_def
      split: sum.splits option.splits)


lemma count_calls_assemble:
  "filter (\<lambda>c. c = GroqCompletion) (snd (assembleEvidence env userId req)) = []"
  using assembleEvidence_calls [of env userId req] by (auto simp: filter_empty_conv)

lemma cites_allowed_iff:
  "cites_allowed ids c \<longleftrightarrow> (\<exists>s. get_prop c ''chunk_id'' = Inr (JStr s) \<and> s \<in> ids)"
  by (cases "get_prop c ''chunk_id''") (auto simp: cites_allowed_def set_has_iff)

subsection \<open>Returned ids are evidence ids\<close>

text \<open>
  C2. For every result the handler returns, whatever the model answered, the \<open>chunk_id\<close>
  of every returned citation and every returned used chunk id is a string that is the id
  of a chunk of the evidence assembled for the request, and every chunk of that evidence
  is a row of the prior-id query or a row of the similarity search.
\<close>

theorem returned_ids_in_evidence:
  assumes "handleQaFollowup env userId body = (Inr r, calls)"
  shows "\<exists>req allChunks t.
           safeParse env body = Inr req \<and>
           assembleEvidence env userId req = (Inr allChunks, t) \<and>
           set allChunks \<subseteq> set (fetched_prior env userId req) \<union> set (search_rows env userId req) \<and>
           (\<forall>c \<in> set (citations r).
              \<exists>s. get_prop c ''chunk_id'' = Inr (JStr s) \<and> s \<in> c_id ` set allChunks) \<and>
           (\<forall>v \<in> set (used_chunk_ids r).
              \<exists>s. v = JStr s \<and> s \<in> c_id ` set allChunks)"
proof -
  from handleQaFollowup_cases [OF assms] obtain req allChunks t1 where
    req: "safeParse env body = Inr req" and
    ev: "assembleEvidence env userId req = (Inr allChunks, t1)" and
    r: "r = not_found_result (thread_id req) \<or>
     (\<exists>f nf ans cits used.
        sanitize (c_id ` set allChunks) f = Inr (nf, ans, cits, used) \<and>
        r = \<lparr>r_thread_id = thread_id req, notFound = nf, answer = ans,
             citations = cits, used_chunk_ids = used,
             supporting_extracts = supportingExtracts allChunks (question req) nf used\<rparr>)"
    by blast
  have ids: "(\<forall>c \<in> set (citations r).
              \<exists>s. get_prop c ''chunk_id'' = Inr (JStr s) \<and> s \<in> c_id ` set allChunks) \<and>
           (\<forall>v \<in> set (used_chunk_ids r).
              \<exists>s. v = JStr s \<and> s \<in> c_id ` set allChunks)"
    using r
  proof (elim disjE exE conjE)
    assume "r = not_found_result (thread_id req)"
    then show ?thesis by (simp add: not_found_result_def)
  next
    fix f nf ans cits used
    assume s: "sanitize (c_id ` set allChunks) f = Inr (nf, ans, cits, used)"
      and r': "r = \<lparr>r_thread_id = thread_id req, notFound = nf, answer = ans,
             citations = cits, used_chunk_ids = used,
             supporting_extracts = supportingExtracts allChunks (question req) nf used\<rparr>"
    from sanitize_cases [OF s]
    have "list_all (cites_allowed (c_id ` set allChunks)) cits"
      and "list_all (set_has (c_id ` set allChunks)) used"
      by auto
    then show ?thesis
      unfolding r' by (simp add: list_all_iff cites_allowed_iff set_has_iff)
  qed
  from assembleEvidence_rows [OF ev] req ev ids show ?thesis by blast
qed

theorem returned_ids_in_evidence_witness:
  "handleQaFollowup env_A ''u1'' (demo_body []) =
     (Inr result_A, [SelectSubject, EmbedText, MatchChunks, GroqCompletion]) \<and>
   citations result_A = [citation_A] \<and>
   get_prop citation_A ''chunk_id'' = Inr (JStr ''c1'') \<and>
   used_chunk_ids result_A = [JStr ''c1''] \<and>
   (\<exists>allChunks t. assembleEvidence env_A ''u1'' (demo_request []) = (Inr allChunks, t) \<and>
      ''c1'' \<in> c_id ` set allChunks)"
proof -
  have run: "handleQaFollowup env_A ''u1'' (demo_body []) =
     (Inr result_A, [SelectSubject, EmbedText, MatchChunks, GroqCompletion])"
    by code_simp
  have req: "safeParse env_A (demo_body []) = Inr (demo_request [])"
    by code_simp
  have c: "citations result_A = [citation_A]" "used_chunk_ids result_A = [JStr ''c1'']"
    by (simp_all add: result_A_def)
  have g: "get_prop citation_A ''chunk_id'' = Inr (JStr ''c1'')"
    by (simp add: citation_A_def)
  from returned_ids_in_evidence [OF run] obtain allChunks t where
    "assembleEvidence env_A ''u1'' (demo_request []) = (Inr allChunks, t)"
    "\<forall>v \<in> set (used_chunk_ids result_A). \<exists>s. v = JStr s \<and> s \<in> c_id ` set allChunks"
    unfolding req by auto
  then have "\<exists>allChunks t. assembleEvidence env_A ''u1'' (demo_request []) = (Inr allChunks, t) \<and>
      ''c1'' \<in> c_id ` set allChunks"
    unfolding c by auto
  with run c g show ?thesis by simp
qed

section \<open>The extractor\<close>

lemma insert_cmp_insort:
  "insert_cmp by_score_desc x ys = insort_key (\<lambda>e. - e_score e) x ys"
  by (induction ys) (auto simp: by_score_desc_def)

lemma js_sort_sort_key:
  "js_sort by_score_desc xs = sort_key (\<lambda>e. - e_score e) xs"
  by (induction xs) (simp_all add: js_sort_def insert_cmp_insort)

lemma js_sort_sorted:
  "sorted_wrt (\<lambda>a b. e_score b \<le> e_score a) (js_sort by_score_desc xs)"
proof -
  have "sorted (map (\<lambda>e. - e_score e) (sort_key (\<lambda>e. - e_score e) xs))"
    by (rule sorted_sort_key)
  then show ?thesis
    by (simp add: js_sort_sort_key sorted_wrt_map)
qed

lemma js_sort_stable:
  "filter (\<lambda>e. e_score e = k) (js_sort by_score_desc xs) = filter (\<lambda>e. e_score e = k) xs"
  using sort_key_stable [of "\<lambda>e. - e_score e" "- k" xs]
  by (simp add: js_sort_sort_key)

lemma set_js_sort: "set (js_sort by_score_desc xs) = set xs"
  by (simp add: js_sort_sort_key)

lemma sorted_wrt_take_any: "sorted_wrt R xs \<Longrightarrow> sorted_wrt R (take n xs)"
  by (metis append_take_drop_id sorted_wrt_append)

lemma chunkById_of_Some:
  "foldl (\<lambda>m c. m(c_id c \<mapsto> c)) m0 cs s = Some c \<Longrightarrow>
   (c \<in> set cs \<and> c_id c = s) \<or> m0 s = Some c"
  by (induction cs arbitrary: m0) (fastforce split: if_splits)+

lemma chunkById_of_member:
  "chunkById_of allChunks s = Some c \<Longrightarrow> c \<in> set allChunks \<and> c_id c = s"
  using chunkById_of_Some [of Map.empty allChunks s c] by (simp add: chunkById_of_def)

lemma map_get_Some: "map_get m v = Some c \<Longrightarrow> \<exists>s. v = JStr s \<and> m s = Some c"
  by (cases v) auto

lemma sentence_evidences_member:
  "e \<in> set (sentence_evidences cid c qT) \<Longrightarrow>
   e_chunk_id e = cid \<and> e_text e \<in> set (splitIntoSentences (c_content c)) \<and>
   e_score e = sentenceScore (e_text e) qT \<and> 0 < e_score e \<and>
   e_file_name e = c_file_name c \<and> e_page_range e = c_page_range c"
  by (auto simp: sentence_evidences_def Let_def split: if_splits)

lemma collect_evidences_member:
  assumes "e \<in> set (collect_evidences (chunkById_of allChunks) qT used)"
  shows "e_chunk_id e \<in> set used \<and> e_score e = sentenceScore (e_text e) qT \<and> 0 < e_score e \<and>
         (\<exists>c \<in> set allChunks. e_chunk_id e = JStr (c_id c) \<and>
            e_text e \<in> set (splitIntoSentences (c_content c)) \<and>
            e_file_name e = c_file_name c \<and> e_page_range e = c_page_range c)"
proof -
  from assms obtain cid where
    cid: "cid \<in> set used" and
    e0: "e \<in> set (case map_get (chunkById_of allChunks) cid of
                      None \<Rightarrow> [] | Some c \<Rightarrow> sentence_evidences cid c qT)"
    by (auto simp: collect_evidences_def)
  then obtain c where
    c: "map_get (chunkById_of allChunks) cid = Some c" and
    e: "e \<in> set (sentence_evidences cid c qT)"
    by (cases "map_get (chunkById_of allChunks) cid") auto
  from map_get_Some [OF c] obtain s where s: "cid = JStr s" "chunkById_of allChunks s = Some c"
    by blast
  from chunkById_of_member [OF s(2)] have "c \<in> set allChunks" "c_id c = s" by simp_all
  with sentence_evidences_member [OF e] cid s show ?thesis by auto
qed


lemma extract_score_to_extract:
  "e_score e = sentenceScore (e_text e) (qTokens_of q) \<Longrightarrow>
   extract_score q (to_extract e) = e_score e"
  by (simp add: extract_score_def to_extract_def)

lemma filter_take_prefix: "prefix (filter P (take n xs)) (filter P xs)"
  by (rule filter_mono_prefix) (rule take_is_prefix)

lemma supportingExtracts_props:
  fixes allChunks :: "ChunkRecord list" and q :: string and nf :: bool and used :: "jsval list"
  defines "xs \<equiv> supportingExtracts allChunks q nf used"
  defines "found \<equiv> collect_evidences (chunkById_of allChunks) (qTokens_of q) used"
  shows "length xs \<le> 8"
    and "\<forall>x \<in> set xs.
           x_chunk_id x \<in> set used \<and> 0 < extract_score q x \<and>
           (\<exists>c \<in> set allChunks. x_chunk_id x = JStr (c_id c) \<and>
              x_text x \<in> set (splitIntoSentences (c_content c)) \<and>
              x_citation x = \<lparr>file_name = c_file_name c, page_range = c_page_range c\<rparr>)"
    and "sorted_wrt (\<lambda>a b. extract_score q b \<le> extract_score q a) xs"
    and "prefix (filter (\<lambda>x. extract_score q x = k) xs)
           (filter (\<lambda>x. extract_score q x = k) (map to_extract found))"
proof -
  define top where "top = take 8 (js_sort by_score_desc found)"
  have xs: "xs = (if \<not> nf \<and> used \<noteq> [] then map to_extract top else [])"
    by (simp add: xs_def supportingExtracts_def found_def top_def Let_def)
  have top_found: "set top \<subseteq> set found"
    using set_take_subset [of 8 "js_sort by_score_desc found"]
    by (simp add: top_def set_js_sort)
  have score: "extract_score q (to_extract e) = e_score e" if "e \<in> set found" for e
    using collect_evidences_member [of e allChunks "qTokens_of q" used] that
    by (simp add: found_def extract_score_to_extract)
  show "length xs \<le> 8"
    by (simp add: xs top_def)
  show "\<forall>x \<in> set xs.
           x_chunk_id x \<in> set used \<and> 0 < extract_score q x \<and>
           (\<exists>c \<in> set allChunks. x_chunk_id x = JStr (c_id c) \<and>
              x_text x \<in> set (splitIntoSentences (c_content c)) \<and>
              x_citation x = \<lparr>file_name = c_file_name c, page_range = c_page_range c\<rparr>)"
  proof
    fix x assume "x \<in> set xs"
    then obtain e where e: "e \<in> set found" and x: "x = to_extract e"
      using top_found by (auto simp: xs split: if_splits)
    from collect_evidences_member [of e allChunks "qTokens_of q" used] e score [OF e]
    show "x_chunk_id x \<in> set used \<and> 0 < extract_score q x \<and>
           (\<exists>c \<in> set allChunks. x_chunk_id x = JStr (c_id c) \<and>
              x_text x \<in> set (splitIntoSentences (c_content c)) \<and>
              x_citation x = \<lparr>file_name = c_file_name c, page_range = c_page_range c\<rparr>)"
      unfolding x found_def by (auto simp: to_extract_def)
  qed
  have top_sorted: "sorted_wrt (\<lambda>a b. e_score b \<le> e_score a) top"
    unfolding top_def by (rule sorted_wrt_take_any) (rule js_sort_sorted)
  have "sorted_wrt (\<lambda>a b. extract_score q (to_extract b) \<le> extract_score q (to_extract a)) top"
  proof (rule sorted_wrt_mono_rel [OF _ top_sorted])
    fix x y
    assume "x \<in> set top" "y \<in> set top" "e_score y \<le> e_score x"
    moreover from this top_found have "x \<in> set found" "y \<in> set found" by auto
    ultimately show "extract_score q (to_extract y) \<le> extract_score q (to_extract x)"
      by (simp add: score)
  qed
  then show "sorted_wrt (\<lambda>a b. extract_score q b \<le> extract_score q a) xs"
    by (simp add: xs sorted_wrt_map)
  have f1: "filter (\<lambda>x. extract_score q x = k) (map to_extract ys)
            = map to_extract (filter (\<lambda>e. e_score e = k) ys)" if "set ys \<subseteq> set found" for ys
    using that score by (induction ys) auto
  have "prefix (filter (\<lambda>e. e_score e = k) top) (filter (\<lambda>e. e_score e = k) found)"
    using filter_take_prefix [of "\<lambda>e. e_score e = k" 8 "js_sort by_score_desc found"]
    by (simp add: top_def js_sort_stable)
  then have "prefix (filter (\<lambda>x. extract_score q x = k) (map to_extract top))
           (filter (\<lambda>x. extract_score q x = k) (map to_extract found))"
    using f1 [OF top_found] f1 [of found] by (simp add: map_mono_prefix)
  then show "prefix (filter (\<lambda>x. extract_score q x = k) xs)
           (filter (\<lambda>x. extract_score q x = k) (map to_extract found))"
    by (simp add: xs)
qed

lemma sentence_evidences_shape:
  "map (\<lambda>e. (e_chunk_id e, e_text e, e_score e)) (sentence_evidences cid c qT) =
     map (\<lambda>s. (cid, s, sentenceScore s qT))
       (filter (\<lambda>s. 0 < sentenceScore s qT) (splitIntoSentences (c_content c)))"
proof -
  have "map (\<lambda>e. (e_chunk_id e, e_text e, e_score e))
          (concat (map (\<lambda>s.
             (let score = sentenceScore s qT
              in if score \<le> 0 then []
                 else [\<lparr>e_text = s, e_chunk_id = cid, e_file_name = c_file_name c,
                        e_page_range = c_page_range c, e_score = score\<rparr>])) ss)) =
        map (\<lambda>s. (cid, s, sentenceScore s qT)) (filter (\<lambda>s. 0 < sentenceScore s qT) ss)" for ss
    by (induction ss) (auto simp: Let_def)
  then show ?thesis by (simp add: sentence_evidences_def)
qed

lemma collect_evidences_shape:
  "map (\<lambda>e. (e_chunk_id e, e_text e, e_score e)) (collect_evidences m qT used) =
     concat (map (\<lambda>cid.
        (case map_get m cid of
           None \<Rightarrow> []
         | Some c \<Rightarrow>
             map (\<lambda>s. (cid, s, sentenceScore s qT))
               (filter (\<lambda>s. 0 < sentenceScore s qT) (splitIntoSentences (c_content c)))))
       used)"
  by (induction used)
    (auto simp: collect_evidences_def sentence_evidences_shape split: option.splits)

lemma mset_js_sort: "mset (js_sort by_score_desc xs) = mset xs"
  by (simp add: js_sort_sort_key)

lemma dom_chunkById_fold:
  "dom (foldl (\<lambda>m c. m(c_id c \<mapsto> c)) m0 cs) = dom m0 \<union> c_id ` set cs"
  by (induction cs arbitrary: m0) auto

lemma chunkById_of_defined:
  "set_has (c_id ` set allChunks) v \<Longrightarrow> map_get (chunkById_of allChunks) v \<noteq> None"
  using dom_chunkById_fold [of Map.empty allChunks]
  by (cases v) (auto simp: chunkById_of_def)

lemma handleQaFollowup_top8:
  assumes "handleQaFollowup env userId body = (Inr r, calls)"
  shows "\<exists>req allChunks t.
           safeParse env body = Inr req \<and>
           assembleEvidence env userId req = (Inr allChunks, t) \<and>
           supporting_extracts r =
             supportingExtracts allChunks (question req) (notFound r) (used_chunk_ids r) \<and>
           supporting_extracts r =
             map to_extract (take 8 (js_sort by_score_desc
               (collect_evidences (chunkById_of allChunks) (qTokens_of (question req))
                  (used_chunk_ids r)))) \<and>
           (\<forall>v \<in> set (used_chunk_ids r). map_get (chunkById_of allChunks) v \<noteq> None)"
proof -
  from handleQaFollowup_cases [OF assms] obtain req allChunks t1 where
    req: "safeParse env body = Inr req" and
    ev: "assembleEvidence env userId req = (Inr allChunks, t1)" and
    r: "r = not_found_result (thread_id req) \<or>
     (\<exists>f nf ans cits used.
        sanitize (c_id ` set allChunks) f = Inr (nf, ans, cits, used) \<and>
        r = \<lparr>r_thread_id = thread_id req, notFound = nf, answer = ans,
             citations = cits, used_chunk_ids = used,
             supporting_extracts = supportingExtracts allChunks (question req) nf used\<rparr>)"
    by blast
  have none: "map to_extract (take 8 (js_sort by_score_desc
               (collect_evidences (chunkById_of allChunks) (qTokens_of (question req)) []))) = []"
    by (simp add: collect_evidences_def js_sort_def)
  from r have "supporting_extracts r =
             supportingExtracts allChunks (question req) (notFound r) (used_chunk_ids r) \<and>
           supporting_extracts r =
             map to_extract (take 8 (js_sort by_score_desc
               (collect_evidences (chunkById_of allChunks) (qTokens_of (question req))
                  (used_chunk_ids r)))) \<and>
           (\<forall>v \<in> set (used_chunk_ids r). map_get (chunkById_of allChunks) v \<noteq> None)"
  proof (elim disjE exE conjE)
    assume "r = not_found_result (thread_id req)"
    then show ?thesis
      using none by (simp add: not_found_result_def supportingExtracts_def)
  next
    fix f nf ans cits used
    assume s: "sanitize (c_id ` set allChunks) f = Inr (nf, ans, cits, used)"
      and r': "r = \<lparr>r_thread_id = thread_id req, notFound = nf, answer = ans,
             citations = cits, used_chunk_ids = used,
             supporting_extracts = supportingExtracts allChunks (question req) nf used\<rparr>"
    from sanitize_cases [OF s]
    have c: "(nf \<and> used = []) \<or>
             (\<not> nf \<and> used \<noteq> [] \<and> list_all (set_has (c_id ` set allChunks)) used)"
      by auto
    then show ?thesis
    proof
      assume "nf \<and> used = []"
      then show ?thesis
        using none by (simp add: r' supportingExtracts_def)
    next
      assume h: "\<not> nf \<and> used \<noteq> [] \<and> list_all (set_has (c_id ` set allChunks)) used"
      then have "\<forall>v \<in> set used. map_get (chunkById_of allChunks) v \<noteq> None"
        by (simp add: list_all_iff chunkById_of_defined)
      with h show ?thesis
        by (simp add: r' supportingExtracts_def Let_def)
    qed
  qed
  with req ev show ?thesis by blast
qed

subsection \<open>The ranked extracts\<close>

text \<open>
  C7. The supporting extracts are built only from chunks whose ids are among the final
  used chunk ids: every extract is a sentence of such a chunk, with that chunk's file
  name and page range, and every used chunk id has its chunk. The discovered sentences
  are, for each used chunk id in order, the sentences of its chunk with a positive score
  against the question's significant tokens, in the order of the chunk; a sentence
  scoring 0 is discarded. The ranking is the permutation of the discovered sentences
  that is ordered by descending score and keeps sentences of equal score in the order of
  discovery, and the extracts are exactly the first 8 entries of the ranking (all of
  them when there are fewer). Hence there are at most 8 extracts, they are ordered by
  descending score, and for every score the extracts of that score are a prefix of the
  discovered sentences of that score.
\<close>

theorem supporting_extracts_ranked:
  assumes "handleQaFollowup env userId body = (Inr r, calls)"
  shows "\<exists>req allChunks t found ranked.
           safeParse env body = Inr req \<and>
           assembleEvidence env userId req = (Inr allChunks, t) \<and>
           (\<forall>v \<in> set (used_chunk_ids r). map_get (chunkById_of allChunks) v \<noteq> None) \<and>
           found = collect_evidences (chunkById_of allChunks) (qTokens_of (question req))
                     (used_chunk_ids r) \<and>
           map (\<lambda>e. (e_chunk_id e, e_text e, e_score e)) found =
             concat (map (\<lambda>cid.
                (case map_get (chunkById_of allChunks) cid of
                   None \<Rightarrow> []
                 | Some c \<Rightarrow>
                     map (\<lambda>s. (cid, s, sentenceScore s (qTokens_of (question req))))
                       (filter (\<lambda>s. 0 < sentenceScore s (qTokens_of (question req)))
                          (splitIntoSentences (c_content c)))))
               (used_chunk_ids r)) \<and>
           ranked = js_sort by_score_desc found \<and>
           mset ranked = mset found \<and>
           sorted_wrt (\<lambda>a b. e_score b \<le> e_score a) ranked \<and>
           (\<forall>k. filter (\<lambda>e. e_score e = k) ranked = filter (\<lambda>e. e_score e = k) found) \<and>
           supporting_extracts r = map to_extract (take 8 ranked) \<and>
           length (supporting_extracts r) \<le> 8 \<and>
           (\<forall>x \<in> set (supporting_extracts r).
              x_chunk_id x \<in> set (used_chunk_ids r) \<and>
              0 < extract_score (question req) x \<and>
              (\<exists>c \<in> set allChunks. x_chunk_id x = JStr (c_id c) \<and>
                 x_text x \<in> set (splitIntoSentences (c_content c)) \<and>
                 x_citation x = \<lparr>file_name = c_file_name c, page_range = c_page_range c\<rparr>)) \<and>
           sorted_wrt (\<lambda>a b. extract_score (question req) b \<le> extract_score (question req) a)
             (supporting_extracts r) \<and>
           (\<forall>k. prefix
              (filter (\<lambda>x. extract_score (question req) x = k) (supporting_extracts r))
              (filter (\<lambda>x. extract_score (question req) x = k)
                 (map to_extract
                    (collect_evidences (chunkById_of allChunks) (qTokens_of (question req))
                       (used_chunk_ids r)))))"
proof -
  from handleQaFollowup_top8 [OF assms] obtain req allChunks t where
    req: "safeParse env body = Inr req" and
    ev: "assembleEvidence env userId req = (Inr allChunks, t)" and
    xs: "supporting_extracts r =
           supportingExtracts allChunks (question req) (notFound r) (used_chunk_ids r)" and
    top: "supporting_extracts r =
             map to_extract (take 8 (js_sort by_score_desc
               (collect_evidences (chunkById_of allChunks) (qTokens_of (question req))
                  (used_chunk_ids r))))" and
    defined: "\<forall>v \<in> set (used_chunk_ids r). map_get (chunkById_of allChunks) v \<noteq> None"
    by blast
  define found where
    "found = collect_evidences (chunkById_of allChunks) (qTokens_of (question req))
               (used_chunk_ids r)"
  define ranked where "ranked = js_sort by_score_desc found"
  note p = supportingExtracts_props
    [where allChunks = allChunks and q = "question req" and nf = "notFound r"
       and used = "used_chunk_ids r", folded xs]
  have shape: "map (\<lambda>e. (e_chunk_id e, e_text e, e_score e)) found =
             concat (map (\<lambda>cid.
                (case map_get (chunkById_of allChunks) cid of
                   None \<Rightarrow> []
                 | Some c \<Rightarrow>
                     map (\<lambda>s. (cid, s, sentenceScore s (qTokens_of (question req))))
                       (filter (\<lambda>s. 0 < sentenceScore s (qTokens_of (question req)))
                          (splitIntoSentences (c_content c)))))
               (used_chunk_ids r))"
    unfolding found_def by (rule collect_evidences_shape)
  have perm: "mset ranked = mset found"
    unfolding ranked_def by (rule mset_js_sort)
  have srt: "sorted_wrt (\<lambda>a b. e_score b \<le> e_score a) ranked"
    unfolding ranked_def by (rule js_sort_sorted)
  have stable: "\<forall>k. filter (\<lambda>e. e_score e = k) ranked = filter (\<lambda>e. e_score e = k) found"
    unfolding ranked_def by (simp add: js_sort_stable)
  have top': "supporting_extracts r = map to_extract (take 8 ranked)"
    unfolding ranked_def found_def by (rule top)
  from req ev defined found_def shape ranked_def perm srt stable top' p(1) p(2) p(3) p(4)
  show ?thesis by blast
qed

theorem supporting_extracts_ranked_witness:
  "handleQaFollowup env_R ''u1'' (demo_body []) =
     (Inr result_R, [SelectSubject, EmbedText, MatchChunks, GroqCompletion]) \<and>
   map (\<lambda>e. (e_text e, e_score e))
     (collect_evidences (chunkById_of [chunk_c2, chunk_c1])
        (qTokens_of ''How do plants convert light?'') [JStr ''c1'', JStr ''c2'']) =
     [(sentence_photosynthesis, 1), (sentence_chlorophyll, 1), (''Leaves absorb light.'', 1),
      (''Plants need light!'', 2), (''Do roots grow?'', 1), (''Some plants flower.'', 1),
      (''How odd.'', 1), (''Light travels fast.'', 1), (''Plants convert light daily.'', 3)] \<and>
   supporting_extracts result_R =
     map to_extract (take 8 (js_sort by_score_desc
       (collect_evidences (chunkById_of [chunk_c2, chunk_c1])
          (qTokens_of ''How do plants convert light?'') [JStr ''c1'', JStr ''c2'']))) \<and>
   map x_text (supporting_extracts result_R) =
     [''Plants convert light daily.'', ''Plants need light!'', sentence_photosynthesis,
      sentence_chlorophyll, ''Leaves absorb light.'', ''Do roots grow?'',
      ''Some plants flower.'', ''How odd.''] \<and>
   map (extract_score ''How do plants convert light?'') (supporting_extracts result_R)
     = [3, 2, 1, 1, 1, 1, 1, 1]"
proof -
  have run: "handleQaFollowup env_R ''u1'' (demo_body []) =
     (Inr result_R, [SelectSubject, EmbedText, MatchChunks, GroqCompletion])"
    by code_simp
  have req: "safeParse env_R (demo_body []) = Inr (demo_request [])"
    by code_simp
  have ev: "assembleEvidence env_R ''u1'' (demo_request []) =
              (Inr [chunk_c2, chunk_c1], [EmbedText, MatchChunks])"
    by code_simp
  have q: "question (demo_request []) = ''How do plants convert light?''"
    by (simp add: demo_request_def)
  have used: "used_chunk_ids result_R = [JStr ''c1'', JStr ''c2'']"
    by (simp add: result_R_def)
  have found: "map (\<lambda>e. (e_text e, e_score e))
     (collect_evidences (chunkById_of [chunk_c2, chunk_c1])
        (qTokens_of ''How do plants convert light?'') [JStr ''c1'', JStr ''c2'']) =
     [(sentence_photosynthesis, 1), (sentence_chlorophyll, 1), (''Leaves absorb light.'', 1),
      (''Plants need light!'', 2), (''Do roots grow?'', 1), (''Some plants flower.'', 1),
      (''How odd.'', 1), (''Light travels fast.'', 1), (''Plants convert light daily.'', 3)]"
    by code_simp
  have texts: "map x_text (supporting_extracts result_R) =
     [''Plants convert light daily.'', ''Plants need light!'', sentence_photosynthesis,
      sentence_chlorophyll, ''Leaves absorb light.'', ''Do roots grow?'',
      ''Some plants flower.'', ''How odd.'']"
    by code_simp
  have scores: "map (extract_score ''How do plants convert light?'') (supporting_extracts result_R)
     = [3, 2, 1, 1, 1, 1, 1, 1]"
    by code_simp
  from supporting_extracts_ranked [OF run] obtain req' allChunks' t' where
    r1: "safeParse env_R (demo_body []) = Inr req'" and
    r2: "assembleEvidence env_R ''u1'' req' = (Inr allChunks', t')" and
    r3: "supporting_extracts result_R =
           map to_extract (take 8 (js_sort by_score_desc
             (collect_evidences (chunkById_of allChunks') (qTokens_of (question req'))
                (used_chunk_ids result_R))))"
    by blast
  from r1 req have e1: "req' = demo_request []" by simp
  from r2 ev have e2: "allChunks' = [chunk_c2, chunk_c1]" by (simp add: e1)
  have top: "supporting_extracts result_R =
     map to_extract (take 8 (js_sort by_score_desc
       (collect_evidences (chunkById_of [chunk_c2, chunk_c1])
          (qTokens_of ''How do plants convert light?'') [JStr ''c1'', JStr ''c2''])))"
    using r3 by (simp only: e1 e2 q used)
  from run found top texts scores show ?thesis
    by (intro conjI)
qed

section \<open>The paths of the handler\<close>

lemma handleQaFollowup_found_subject:
  assumes "safeParse env body = Inr req" and "subject_found env userId req"
  shows "handleQaFollowup env userId body =
     (case assembleEvidence env userId req of
        (Inl e, t1) \<Rightarrow> (Inl e, SelectSubject # t1)
      | (Inr allChunks, t1) \<Rightarrow>
          if allChunks = []
          then (Inr (not_found_result (thread_id req)), SelectSubject # t1)
          else (case answerFromEvidence env req allChunks of
                  (out, t2) \<Rightarrow> (out, SelectSubject # t1 @ t2)))"
  using assms
  by (auto simp: handleQaFollowup_def subject_found_def Let_def
      split: option.splits prod.splits sum.splits)

lemma answerFromEvidence_calls:
  "snd (answerFromEvidence env req allChunks) = [GroqCompletion]"
  by (auto simp: answerFromEvidence_def Let_def split: sum.splits option.splits prod.splits)

lemma answerFromEvidence_parse_failure:
  assumes "callGroqJson env = Inr raw" and "JSON_parse env (stripPossibleCodeFences raw) = None"
  shows "answerFromEvidence env req allChunks =
           (Inr (not_found_result (thread_id req)), [GroqCompletion])"
  using assms by (simp add: answerFromEvidence_def)

lemma reaches_search:
  assumes "safeParse env body = Inr req"
    and "EmbedText \<in> set (snd (handleQaFollowup env userId body))"
  shows "subject_found env userId req"
  using assms
  by (auto simp: handleQaFollowup_def subject_found_def Let_def split: option.splits)

lemma reaches_completion:
  assumes "safeParse env body = Inr req"
    and "GroqCompletion \<in> set (snd (handleQaFollowup env userId body))"
  shows "subject_found env userId req \<and>
         (\<exists>allChunks t1. assembleEvidence env userId req = (Inr allChunks, t1) \<and> allChunks \<noteq> [])"
proof -
  have s: "subject_found env userId req"
    using assms
    by (auto simp: handleQaFollowup_def subject_found_def Let_def split: option.splits)
  obtain out t1 where ev: "assembleEvidence env userId req = (out, t1)"
    by (cases "assembleEvidence env userId req") auto
  have t1: "GroqCompletion \<notin> set t1"
    using assembleEvidence_calls [of env userId req] ev by simp
  from assms(2) t1 ev obtain allChunks where "out = Inr allChunks" "allChunks \<noteq> []"
    by (cases out) (auto simp: handleQaFollowup_found_subject [OF assms(1) s] split: if_splits)
  with s ev show ?thesis by simp
qed

subsection \<open>An answer that does not parse\<close>

text \<open>
  An answer that parses, with fields of the wrong shape, is not a not-found result: with
  a number for \<open>answer\<close> and a string for \<open>used_chunk_ids\<close> the handler returns a found
  result whose answer is the number; a \<open>null\<close> in the \<open>citations\<close> array makes the handler
  throw a TypeError; and after a syntax error the returned answer is the fixed sentence, not the
  empty string.
\<close>

theorem wrong_shape_counterexample:
  "JSON_parse env_shape (stripPossibleCodeFences raw_shape) = Some parsed_shape \<and>
   (\<exists>r. fst (handleQaFollowup env_shape ''u1'' (demo_body [])) = Inr r \<and>
        notFound r = False \<and> answer r = JNum 5 \<and>
        citations r = [JObj [(''chunk_id'', JStr ''c1'')]]) \<and>
   JSON_parse env_null_citation (stripPossibleCodeFences raw_null_citation)
     = Some parsed_null_citation \<and>
   fst (handleQaFollowup env_null_citation ''u1'' (demo_body []))
     = Inl (TypeError ''Cannot read properties of null'') \<and>
   JSON_parse env_D (stripPossibleCodeFences raw_D) = None \<and>
   (\<exists>r. fst (handleQaFollowup env_D ''u1'' (demo_body [])) = Inr r \<and>
        answer r \<noteq> JStr [])"
proof -
  have "JSON_parse env_shape (stripPossibleCodeFences raw_shape) = Some parsed_shape"
    by code_simp
  moreover have "fst (handleQaFollowup env_shape ''u1'' (demo_body [])) =
      Inr \<lparr>r_thread_id = ''thread-1'', notFound = False, answer = JNum 5,
           citations = [JObj [(''chunk_id'', JStr ''c1'')]], used_chunk_ids = [JStr ''c1''],
           supporting_extracts =
             [extract_of chunk_c1 sentence_photosynthesis,
              extract_of chunk_c1 sentence_chlorophyll]\<rparr>"
    by code_simp
  moreover have "JSON_parse env_null_citation (stripPossibleCodeFences raw_null_citation)
     = Some parsed_null_citation"
    by code_simp
  moreover have "fst (handleQaFollowup env_null_citation ''u1'' (demo_body []))
     = Inl (TypeError ''Cannot read properties of null'')"
    by code_simp
  moreover have "JSON_parse env_D (stripPossibleCodeFences raw_D) = None"
    by code_simp
  moreover have "fst (handleQaFollowup env_D ''u1'' (demo_body []))
     = Inr (not_found_result ''thread-1'')"
    by code_simp
  ultimately show ?thesis by (simp add: not_found_result_def NOT_FOUND_ANSWER_def)
qed

text \<open>
  C4, amended. When the completion service has answered and \<open>JSON.parse\<close> throws on
  the answer (stripped of code fences), the handler surfaces no exception and makes no
  second completion call: it returns the fixed not-found result, with \<open>notFound = true\<close>,
  the fixed sentence as the answer, and no citations, used chunk ids or supporting
  extracts.
\<close>

theorem parse_failure_not_found:
  assumes "safeParse env body = Inr req"
    and "GroqCompletion \<in> set (snd (handleQaFollowup env userId body))"
    and "callGroqJson env = Inr raw"
    and "JSON_parse env (stripPossibleCodeFences raw) = None"
  shows "fst (handleQaFollowup env userId body) =
           Inr \<lparr>r_thread_id = thread_id req, notFound = True,
                answer = JStr ''Not found in your notes for this subject.'',
                citations = [], used_chunk_ids = [], supporting_extracts = []\<rparr> \<and>
         filter (\<lambda>c. c = GroqCompletion) (snd (handleQaFollowup env userId body))
           = [GroqCompletion]"
proof -
  from reaches_completion [OF assms(1,2)] obtain allChunks t1 where
    s: "subject_found env userId req" and
    ev: "assembleEvidence env userId req = (Inr allChunks, t1)" and
    ne: "allChunks \<noteq> []"
    by blast
  have run: "handleQaFollowup env userId body =
      (Inr (not_found_result (thread_id req)), SelectSubject # t1 @ [GroqCompletion])"
    using ev ne answerFromEvidence_parse_failure [OF assms(3,4), of req allChunks]
    by (simp add: handleQaFollowup_found_subject [OF assms(1) s])
  have "filter (\<lambda>c. c = GroqCompletion) t1 = []"
    using count_calls_assemble [of env userId req] ev by simp
  with run show ?thesis
    by (simp add: not_found_result_def NOT_FOUND_ANSWER_def)
qed

theorem parse_failure_not_found_witness:
  "callGroqJson env_D = Inr raw_D \<and>
   JSON_parse env_D (stripPossibleCodeFences raw_D) = None \<and>
   handleQaFollowup env_D ''u1'' (demo_body []) =
     (Inr \<lparr>r_thread_id = ''thread-1'', notFound = True,
           answer = JStr ''Not found in your notes for this subject.'',
           citations = [], used_chunk_ids = [], supporting_extracts = []\<rparr>,
      [SelectSubject, EmbedText, MatchChunks, GroqCompletion])"
proof -
  have a1: "safeParse env_D (demo_body []) = Inr (demo_request [])"
    by code_simp
  have calls: "snd (handleQaFollowup env_D ''u1'' (demo_body []))
                = [SelectSubject, EmbedText, MatchChunks, GroqCompletion]"
    by code_simp
  have a2: "GroqCompletion \<in> set (snd (handleQaFollowup env_D ''u1'' (demo_body [])))"
    unfolding calls by simp
  have a3: "callGroqJson env_D = Inr raw_D"
    by code_simp
  have a4: "JSON_parse env_D (stripPossibleCodeFences raw_D) = None"
    by code_simp
  have t: "thread_id (demo_request []) = ''thread-1''"
    by (simp add: demo_request_def)
  from parse_failure_not_found [OF a1 a2 a3 a4] a3 a4 calls show ?thesis
    by (simp add: t prod_eq_iff)
qed

subsection \<open>No evidence\<close>

text \<open>
  C5. If the list of prior chunk ids of the request is empty, and the similarity search
  the handler runs fails (a call throws, or the \<open>rpc\<close> resolves with an error) or returns
  no matches, the handler returns the fixed not-found result (\<open>notFound = true\<close>, the
  fixed sentence, all lists empty, the thread id of the request) and never calls the
  completion service.
\<close>

theorem empty_evidence_short_circuit:
  assumes "safeParse env body = Inr req"
    and "last_chunk_ids req = []"
    and "EmbedText \<in> set (snd (handleQaFollowup env userId body))"
    and "search_throws env userId req \<or> search_without_matches env userId req"
  shows "fst (handleQaFollowup env userId body) =
           Inr \<lparr>r_thread_id = thread_id req, notFound = True,
                answer = JStr ''Not found in your notes for this subject.'',
                citations = [], used_chunk_ids = [], supporting_extracts = []\<rparr> \<and>
         GroqCompletion \<notin> set (snd (handleQaFollowup env userId body))"
proof -
  have s: "subject_found env userId req"
    using assms(1,3) by (rule reaches_search)
  have base: "loadBaseChunks env userId req = (Inr [], [])"
    using assms(2) by (simp add: loadBaseChunks_def array_from_set_def)
  obtain allChunks t2 where v: "vectorSearch env userId req [] = (allChunks, t2)"
    by (cases "vectorSearch env userId req []") auto
  have "fst (vectorSearch env userId req []) = []"
    using assms(4) vectorSearch_throws vectorSearch_without_matches by blast
  with v have e: "allChunks = []" by simp
  have ev: "assembleEvidence env userId req = (Inr [], t2)"
    using base v e by (simp add: assembleEvidence_def)
  have "GroqCompletion \<notin> set t2"
    using vectorSearch_calls [of env userId req "[]"] v by simp
  then show ?thesis
    using ev
    by (simp add: handleQaFollowup_found_subject [OF assms(1) s] not_found_result_def
        NOT_FOUND_ANSWER_def)
qed

theorem empty_evidence_short_circuit_witness:
  "last_chunk_ids (demo_request []) = [] \<and>
   search_throws env_C ''u1'' (demo_request []) \<and>
   handleQaFollowup env_C ''u1'' (demo_body []) =
     (Inr \<lparr>r_thread_id = ''thread-1'', notFound = True,
           answer = JStr ''Not found in your notes for this subject.'',
           citations = [], used_chunk_ids = [], supporting_extracts = []\<rparr>,
      [SelectSubject, EmbedText])"
proof -
  have a1: "safeParse env_C (demo_body []) = Inr (demo_request [])"
    by code_simp
  have a2: "last_chunk_ids (demo_request []) = []"
    by (simp add: demo_request_def)
  have calls: "snd (handleQaFollowup env_C ''u1'' (demo_body [])) = [SelectSubject, EmbedText]"
    by code_simp
  have a3: "EmbedText \<in> set (snd (handleQaFollowup env_C ''u1'' (demo_body [])))"
    unfolding calls by simp
  have a4: "search_throws env_C ''u1'' (demo_request [])"
    by code_simp
  have t: "thread_id (demo_request []) = ''thread-1''"
    by (simp add: demo_request_def)
  from empty_evidence_short_circuit [OF a1 a2 a3 disjI1 [OF a4]] a2 a4 calls
  show ?thesis
    by (simp add: t prod_eq_iff)
qed

subsection \<open>A failing similarity search\<close>

lemma fst_handleQaFollowup:
  "fst (handleQaFollowup env userId body) =
     (case safeParse env body of
        Inl msgs \<Rightarrow> Inl (Error (join ''; '' msgs))
      | Inr req \<Rightarrow>
          (case error (select_subject env (subject_id req) userId) of
             Some e \<Rightarrow> Inl (Error ''Subject not found for user'')
           | None \<Rightarrow>
               (case data (select_subject env (subject_id req) userId) of
                  None \<Rightarrow> Inl (Error ''Subject not found for user'')
                | Some subj \<Rightarrow>
                    (case fst (assembleEvidence env userId req) of
                       Inl e \<Rightarrow> Inl e
                     | Inr allChunks \<Rightarrow>
                         if allChunks = [] then Inr (not_found_result (thread_id req))
                         else fst (answerFromEvidence env req allChunks)))))"
  by (auto simp: handleQaFollowup_def Let_def split: sum.splits option.splits prod.splits)

lemma fst_assembleEvidence:
  "fst (assembleEvidence env userId req) =
     (case fst (loadBaseChunks env userId req) of
        Inl e \<Rightarrow> Inl e
      | Inr base \<Rightarrow> Inr (fst (vectorSearch env userId req base)))"
  by (auto simp: assembleEvidence_def split: sum.splits prod.splits)

lemma assembleEvidence_throws:
  "search_throws env userId req \<Longrightarrow>
   fst (assembleEvidence env userId req) = fst (loadBaseChunks env userId req)"
  by (simp add: fst_assembleEvidence vectorSearch_throws split: sum.splits)

lemma assembleEvidence_empty_search:
  "fst (assembleEvidence (with_empty_search v env) userId req) = fst (loadBaseChunks env userId req)"
  by (simp add: fst_assembleEvidence vectorSearch_empty_search loadBaseChunks_empty_search
      split: sum.splits)

lemma with_empty_search_same:
  "safeParse (with_empty_search v env) = safeParse env"
  "select_subject (with_empty_search v env) = select_subject env"
  by (simp_all add: with_empty_search_def)

text \<open>
  C6. If the embedding call or the similarity-search call the handler makes throws, the
  handler swallows the failure and goes on with the chunks of the prior-id lookup: the
  evidence is what that lookup produced, the outcome of the request is the outcome it
  has when the search succeeds and finds nothing (so the request never fails because of
  the search alone), and with non-empty prior chunks the handler calls the completion
  service and returns what the completion and sanitization stages return on those chunks.
\<close>

theorem search_failure_swallowed:
  assumes "safeParse env body = Inr req"
    and "EmbedText \<in> set (snd (handleQaFollowup env userId body))"
    and "search_throws env userId req"
  shows "fst (assembleEvidence env userId req) = fst (loadBaseChunks env userId req) \<and>
         fst (handleQaFollowup env userId body)
           = fst (handleQaFollowup (with_empty_search v env) userId body) \<and>
         (\<forall>base. fst (loadBaseChunks env userId req) = Inr base \<and> base \<noteq> [] \<longrightarrow>
                 fst (handleQaFollowup env userId body) = fst (answerFromEvidence env req base) \<and>
                 GroqCompletion \<in> set (snd (handleQaFollowup env userId body)))"
proof (intro conjI allI impI)
  show a: "fst (assembleEvidence env userId req) = fst (loadBaseChunks env userId req)"
    using assms(3) by (rule assembleEvidence_throws)
  show "fst (handleQaFollowup env userId body)
           = fst (handleQaFollowup (with_empty_search v env) userId body)"
    unfolding fst_handleQaFollowup with_empty_search_same assms(1)
    by (simp add: a assembleEvidence_empty_search answerFromEvidence_empty_search
        split: option.splits sum.splits)
next
  fix base
  assume h: "fst (loadBaseChunks env userId req) = Inr base \<and> base \<noteq> []"
  have s: "subject_found env userId req"
    using assms(1,2) by (rule reaches_search)
  obtain out t1 where ev: "assembleEvidence env userId req = (out, t1)"
    by (cases "assembleEvidence env userId req") auto
  have out: "out = Inr base"
    using assembleEvidence_throws [OF assms(3)] ev h by simp
  obtain res t2 where ans: "answerFromEvidence env req base = (res, t2)"
    by (cases "answerFromEvidence env req base") auto
  have t2: "t2 = [GroqCompletion]"
    using answerFromEvidence_calls [of env req base] ans by simp
  have "handleQaFollowup env userId body = (res, SelectSubject # t1 @ t2)"
    using h ev out ans by (simp add: handleQaFollowup_found_subject [OF assms(1) s])
  then show "fst (handleQaFollowup env userId body) = fst (answerFromEvidence env req base)"
    and "GroqCompletion \<in> set (snd (handleQaFollowup env userId body))"
    using ans t2 by simp_all
qed

theorem search_failure_swallowed_witness:
  "search_throws env_prior ''u1'' (demo_request [demo_chunk_uuid]) \<and>
   fst (loadBaseChunks env_prior ''u1'' (demo_request [demo_chunk_uuid])) = Inr [chunk_prior] \<and>
   fst (assembleEvidence env_prior ''u1'' (demo_request [demo_chunk_uuid])) = Inr [chunk_prior] \<and>
   fst (handleQaFollowup env_prior ''u1'' (demo_body [demo_chunk_uuid]))
     = fst (answerFromEvidence env_prior (demo_request [demo_chunk_uuid]) [chunk_prior]) \<and>
   snd (handleQaFollowup env_prior ''u1'' (demo_body [demo_chunk_uuid]))
     = [SelectSubject, SelectChunks, EmbedText, GroqCompletion]"
proof -
  have a1: "safeParse env_prior (demo_body [demo_chunk_uuid]) = Inr (demo_request [demo_chunk_uuid])"
    by code_simp
  have calls: "snd (handleQaFollowup env_prior ''u1'' (demo_body [demo_chunk_uuid]))
     = [SelectSubject, SelectChunks, EmbedText, GroqCompletion]"
    by code_simp
  have a2: "EmbedText \<in> set (snd (handleQaFollowup env_prior ''u1'' (demo_body [demo_chunk_uuid])))"
    unfolding calls by simp
  have a3: "search_throws env_prior ''u1'' (demo_request [demo_chunk_uuid])"
    by code_simp
  have b: "fst (loadBaseChunks env_prior ''u1'' (demo_request [demo_chunk_uuid])) = Inr [chunk_prior]"
    by code_simp
  note th = search_failure_swallowed [OF a1 a2 a3, of "[]"]
  have e: "fst (assembleEvidence env_prior ''u1'' (demo_request [demo_chunk_uuid]))
             = Inr [chunk_prior]"
    using th [THEN conjunct1] b by simp
  have r: "fst (handleQaFollowup env_prior ''u1'' (demo_body [demo_chunk_uuid]))
     = fst (answerFromEvidence env_prior (demo_request [demo_chunk_uuid]) [chunk_prior])"
    using th [THEN conjunct2, THEN conjunct2, rule_format, of "[chunk_prior]"] b by simp
  from a3 b e r calls show ?thesis
    by (intro conjI)
qed

section \<open>Scenarios\<close>

text \<open>
  In scenario A the sentence on photosynthesis does not score above the sentence on
  chlorophyll: \<open>converts\<close> is not the token \<open>convert\<close>, and \<open>plants\<close> is a token of
  the question.
\<close>

theorem scenario_A_scores_tie:
  "\<not> (sentenceScore sentence_chlorophyll (qTokens_of ''How do plants convert light?'')
        < sentenceScore sentence_photosynthesis (qTokens_of ''How do plants convert light?''))"
  by code_simp

text \<open>
  C8, amended. For the evidence \<open>c1\<close> with the content \<open>Photosynthesis converts light
  into chemical energy. Plants use chlorophyll.\<close> and the question \<open>How do plants
  convert light?\<close>, when the model returns \<open>notFound = false\<close>, one citation of \<open>c1\<close>
  and \<open>used_chunk_ids = [c1]\<close>, the sanitizer returns the four fields unchanged; both
  sentences score 1 (the first shares \<open>light\<close> with the question, the second \<open>plants\<close>),
  and the sentence on photosynthesis is the first supporting extract, ahead of the
  sentence on chlorophyll, because equal scores keep the order of discovery.
\<close>

theorem scenario_A:
  "fst (assembleEvidence env_A ''u1'' (demo_request [])) = Inr [chunk_c1] \<and>
   question (demo_request []) = ''How do plants convert light?'' \<and>
   JSON_parse env_A (stripPossibleCodeFences raw_A) = Some parsed_A \<and>
   extract_fields parsed_A
     = Inr (False, JStr ''Plants turn light into chemical energy.'', [citation_A], [JStr ''c1'']) \<and>
   sanitize (c_id ` set [chunk_c1])
       (False, JStr ''Plants turn light into chemical energy.'', [citation_A], [JStr ''c1''])
     = Inr (False, JStr ''Plants turn light into chemical energy.'', [citation_A], [JStr ''c1'']) \<and>
   splitIntoSentences (c_content chunk_c1) = [sentence_photosynthesis, sentence_chlorophyll] \<and>
   significant_tokens ''How do plants convert light?''
     = [''how'', ''do'', ''plants'', ''convert'', ''light''] \<and>
   significant_tokens sentence_photosynthesis
     = [''photosynthesis'', ''converts'', ''light'', ''into'', ''chemical'', ''energy''] \<and>
   significant_tokens sentence_chlorophyll = [''plants'', ''use'', ''chlorophyll''] \<and>
   sentenceScore sentence_photosynthesis (qTokens_of ''How do plants convert light?'') = 1 \<and>
   sentenceScore sentence_chlorophyll (qTokens_of ''How do plants convert light?'') = 1 \<and>
   handleQaFollowup env_A ''u1'' (demo_body [])
     = (Inr result_A, [SelectSubject, EmbedText, MatchChunks, GroqCompletion]) \<and>
   map x_text (supporting_extracts result_A) = [sentence_photosynthesis, sentence_chlorophyll]"
  by (intro conjI; code_simp)

text \<open>
  C9. Only the \<open>chunk_id\<close> of a citation is validated: for a model output whose
  citation names the chunk \<open>c1\<close> of the evidence with a file name and a page range that
  differ from the stored ones, the handler returns that citation, with the invented file
  name and page range, in the final citations.
\<close>

theorem invented_citation_returned:
  "fst (assembleEvidence env_invented ''u1'' (demo_request [])) = Inr [chunk_c1] \<and>
   c_id chunk_c1 = ''c1'' \<and> c_file_name chunk_c1 = ''biology.pdf'' \<and>
   c_page_range chunk_c1 = ''3-4'' \<and>
   JSON_parse env_invented (stripPossibleCodeFences raw_invented) = Some parsed_invented \<and>
   get_prop parsed_invented ''citations''
     = Inr (JArr [JObj [(''chunk_id'', JStr ''c1''), (''file_name'', JStr ''invented.pdf''),
                        (''page_range'', JStr ''99'')]]) \<and>
   (\<exists>r. fst (handleQaFollowup env_invented ''u1'' (demo_body [])) = Inr r \<and>
        notFound r = False \<and>
        citations r = [JObj [(''chunk_id'', JStr ''c1''), (''file_name'', JStr ''invented.pdf''),
                             (''page_range'', JStr ''99'')]])"
proof -
  have "fst (handleQaFollowup env_invented ''u1'' (demo_body [])) =
      Inr \<lparr>r_thread_id = ''thread-1'', notFound = False,
           answer = JStr ''Plants turn light into chemical energy.'',
           citations = [citation_invented], used_chunk_ids = [JStr ''c1''],
           supporting_extracts =
             [extract_of chunk_c1 sentence_photosynthesis,
              extract_of chunk_c1 sentence_chlorophyll]\<rparr>"
    by code_simp
  then have "\<exists>r. fst (handleQaFollowup env_invented ''u1'' (demo_body [])) = Inr r \<and>
        notFound r = False \<and>
        citations r = [JObj [(''chunk_id'', JStr ''c1''), (''file_name'', JStr ''invented.pdf''),
                             (''page_range'', JStr ''99'')]]"
    by (simp add: citation_invented_def)
  moreover have "fst (assembleEvidence env_invented ''u1'' (demo_request [])) = Inr [chunk_c1]"
    by code_simp
  moreover have "JSON_parse env_invented (stripPossibleCodeFences raw_invented) = Some parsed_invented"
    by code_simp
  moreover have "get_prop parsed_invented ''citations''
     = Inr (JArr [JObj [(''chunk_id'', JStr ''c1''), (''file_name'', JStr ''invented.pdf''),
                        (''page_range'', JStr ''99'')]])"
    by code_simp
  moreover have "c_id chunk_c1 = ''c1''" "c_file_name chunk_c1 = ''biology.pdf''"
    "c_page_range chunk_c1 = ''3-4''"
    by (simp_all add: chunk_c1_def)
  ultimately show ?thesis by blast
qed

text \<open>
  C10. For a model output that parses, has no \<open>answer\<close> and no \<open>notFound\<close> field, and has a
  citation whose \<open>chunk_id\<close> is in the evidence, the handler returns \<open>notFound = false\<close>
  with the empty string as the answer.
\<close>

theorem missing_answer_found_empty:
  "JSON_parse env_no_answer (stripPossibleCodeFences raw_no_answer) = Some parsed_no_answer \<and>
   get_prop parsed_no_answer ''answer'' = Inr JUndefined \<and>
   get_prop parsed_no_answer ''notFound'' = Inr JUndefined \<and>
   get_prop parsed_no_answer ''citations'' = Inr (JArr [citation_A]) \<and>
   get_prop citation_A ''chunk_id'' = Inr (JStr ''c1'') \<and>
   fst (assembleEvidence env_no_answer ''u1'' (demo_request [])) = Inr [chunk_c1] \<and>
   c_id chunk_c1 = ''c1'' \<and>
   (\<exists>r. fst (handleQaFollowup env_no_answer ''u1'' (demo_body [])) = Inr r \<and>
        notFound r = False \<and> answer r = JStr '''' \<and> citations r = [citation_A])"
proof -
  have "fst (handleQaFollowup env_no_answer ''u1'' (demo_body [])) =
      Inr \<lparr>r_thread_id = ''thread-1'', notFound = False, answer = JStr '''',
           citations = [citation_A], used_chunk_ids = [JStr ''c1''],
           supporting_extracts =
             [extract_of chunk_c1 sentence_photosynthesis,
              extract_of chunk_c1 sentence_chlorophyll]\<rparr>"
    by code_simp
  then have "\<exists>r. fst (handleQaFollowup env_no_answer ''u1'' (demo_body [])) = Inr r \<and>
        notFound r = False \<and> answer r = JStr '''' \<and> citations r = [citation_A]"
    by simp
  moreover have "JSON_parse env_no_answer (stripPossibleCodeFences raw_no_answer) = Some parsed_no_answer"
    by code_simp
  moreover have "get_prop parsed_no_answer ''answer'' = Inr JUndefined"
    "get_prop parsed_no_answer ''notFound'' = Inr JUndefined"
    "get_prop parsed_no_answer ''citations'' = Inr (JArr [citation_A])"
    "get_prop citation_A ''chunk_id'' = Inr (JStr ''c1'')"
    by (simp_all add: parsed_no_answer_def citation_A_def)
  moreover have "fst (assembleEvidence env_no_answer ''u1'' (demo_request [])) = Inr [chunk_c1]"
    by code_simp
  moreover have "c_id chunk_c1 = ''c1''"
    by (simp add: chunk_c1_def)
  ultimately show ?thesis by blast
qed

end
